theory Spec2Isabelle
  imports Complex_Main
begin

unbundle bit_operations_syntax

section \<open>Reflection tables\<close>

text \<open>
  The scaling utilities of \<^verbatim>\<open>algorithms/scaling/scaling_utilities.py\<close> work on a
  reflection table: a dictionary of equally long columns, together with one word of flag
  bits per row. Every exception of the source is a value of \<open>error\<close>.
\<close>

type_synonym vec3 = "real \<times> real \<times> real"
type_synonym miller_index = "int \<times> int \<times> int"

datatype error = KeyError | TypeError | ValueError | IndexError | ZeroDivisionError | SizeError

text \<open>
  The entries of a \<^verbatim>\<open>flex.double\<close> array are IEEE-754 doubles. Their arithmetic never
  raises: a division by zero gives an infinity or a NaN, never HOL's \<open>x / 0 = 0\<close>.
  A finite double is modelled by the real number it stands for (rounding, overflow and the
  sign of zero are not modelled); the three other values are explicit.
\<close>

datatype double = Fin real | PInf | NInf | NaN

fun d_sign :: "double \<Rightarrow> real" where
  "d_sign (Fin a) = sgn a"
| "d_sign PInf = 1"
| "d_sign NInf = - 1"
| "d_sign NaN = 0"

definition d_inf :: "real \<Rightarrow> double" where
  "d_inf s = (if 0 < s then PInf else if s < 0 then NInf else NaN)"

fun d_neg :: "double \<Rightarrow> double" where
  "d_neg (Fin a) = Fin (- a)"
| "d_neg PInf = NInf"
| "d_neg NInf = PInf"
| "d_neg NaN = NaN"

fun d_add :: "double \<Rightarrow> double \<Rightarrow> double" where
  "d_add NaN y = NaN"
| "d_add x NaN = NaN"
| "d_add (Fin a) (Fin b) = Fin (a + b)"
| "d_add (Fin a) y = y"
| "d_add x (Fin b) = x"
| "d_add x y = (if x = y then x else NaN)"

definition d_sub :: "double \<Rightarrow> double \<Rightarrow> double" where
  "d_sub x y = d_add x (d_neg y)"

fun d_mul :: "double \<Rightarrow> double \<Rightarrow> double" where
  "d_mul NaN y = NaN"
| "d_mul x NaN = NaN"
| "d_mul (Fin a) (Fin b) = Fin (a * b)"
| "d_mul x y = d_inf (d_sign x * d_sign y)"

fun d_div :: "double \<Rightarrow> double \<Rightarrow> double" where
  "d_div NaN y = NaN"
| "d_div x NaN = NaN"
| "d_div (Fin a) (Fin b) = (if b = 0 then d_inf a else Fin (a / b))"
| "d_div (Fin a) y = Fin 0"
| "d_div x (Fin b) = d_inf (if b < 0 then - d_sign x else d_sign x)"
| "d_div x y = NaN"

text \<open>Comparisons: every comparison with a NaN is false.\<close>

fun d_lt :: "double \<Rightarrow> double \<Rightarrow> bool" where
  "d_lt NaN y = False"
| "d_lt x NaN = False"
| "d_lt (Fin a) (Fin b) = (a < b)"
| "d_lt x PInf = (x \<noteq> PInf)"
| "d_lt NInf y = (y \<noteq> NInf)"
| "d_lt x y = False"

definition d_gt :: "double \<Rightarrow> double \<Rightarrow> bool" where
  "d_gt x y = d_lt y x"

definition d_eq :: "double \<Rightarrow> double \<Rightarrow> bool" where
  "d_eq x y \<longleftrightarrow> x = y \<and> x \<noteq> NaN"

definition d_le :: "double \<Rightarrow> double \<Rightarrow> bool" where
  "d_le x y \<longleftrightarrow> d_lt x y \<or> d_eq x y"

datatype column =
    DoubleCol "double list"
  | BoolCol "bool list"
  | Vec3Col "vec3 list"
  | MillerCol "miller_index list"

record reflection_table =
  nrows :: nat
  flags :: "nat list"
  columns :: "string \<rightharpoonup> column"

definition bind_err :: "error + 'a \<Rightarrow> ('a \<Rightarrow> error + 'b) \<Rightarrow> error + 'b" where
  "bind_err m f = (case m of Inl e \<Rightarrow> Inl e | Inr x \<Rightarrow> f x)"

fun col_size :: "column \<Rightarrow> nat" where
  "col_size (DoubleCol xs) = length xs"
| "col_size (BoolCol xs) = length xs"
| "col_size (Vec3Col xs) = length xs"
| "col_size (MillerCol xs) = length xs"

text \<open>A table is well formed when every column and the flag words have \<open>nrows\<close> entries.\<close>

definition wf_table :: "reflection_table \<Rightarrow> bool" where
  "wf_table t \<longleftrightarrow>
     length (flags t) = nrows t \<and> (\<forall>k c. columns t k = Some c \<longrightarrow> col_size c = nrows t)"

text \<open>\<^verbatim>\<open>table[key]\<close>, read at the type the caller uses the column at.\<close>

definition get_double :: "reflection_table \<Rightarrow> string \<Rightarrow> error + double list" where
  "get_double t k =
     (case columns t k of None \<Rightarrow> Inl KeyError
      | Some (DoubleCol xs) \<Rightarrow> Inr xs | Some _ \<Rightarrow> Inl TypeError)"

definition get_bool :: "reflection_table \<Rightarrow> string \<Rightarrow> error + bool list" where
  "get_bool t k =
     (case columns t k of None \<Rightarrow> Inl KeyError
      | Some (BoolCol xs) \<Rightarrow> Inr xs | Some _ \<Rightarrow> Inl TypeError)"

definition get_vec3 :: "reflection_table \<Rightarrow> string \<Rightarrow> error + vec3 list" where
  "get_vec3 t k =
     (case columns t k of None \<Rightarrow> Inl KeyError
      | Some (Vec3Col xs) \<Rightarrow> Inr xs | Some _ \<Rightarrow> Inl TypeError)"

definition get_miller :: "reflection_table \<Rightarrow> string \<Rightarrow> error + miller_index list" where
  "get_miller t k =
     (case columns t k of None \<Rightarrow> Inl KeyError
      | Some (MillerCol xs) \<Rightarrow> Inr xs | Some _ \<Rightarrow> Inl TypeError)"

text \<open>
  \<^verbatim>\<open>table[key].set_selected(...)\<close> writes into the column the table holds: the
  column is replaced under its key.
\<close>

definition put_double :: "reflection_table \<Rightarrow> string \<Rightarrow> double list \<Rightarrow> reflection_table" where
  "put_double t k xs = t\<lparr>columns := (columns t)(k \<mapsto> DoubleCol xs)\<rparr>"

text \<open>\<^verbatim>\<open>table[key] = column\<close>: the column must have as many entries as the table has rows.\<close>

definition setitem :: "reflection_table \<Rightarrow> string \<Rightarrow> column \<Rightarrow> error + reflection_table" where
  "setitem t k c =
     (if col_size c = nrows t then Inr (t\<lparr>columns := (columns t)(k \<mapsto> c)\<rparr>)
      else Inl SizeError)"

text \<open>
  \<^verbatim>\<open>del table[key]\<close>. Both paths of \<^verbatim>\<open>calc_normE2\<close> delete working columns that were
  only ever added to the statistics subset, so deleting an absent column does nothing.
\<close>

definition delitem :: "reflection_table \<Rightarrow> string \<Rightarrow> reflection_table" where
  "delitem t k = t\<lparr>columns := (columns t)(k := None)\<rparr>"

text \<open>\<^verbatim>\<open>array.select(sel)\<close>: the entries whose selection bit is set, in order.\<close>

definition select_list :: "bool list \<Rightarrow> 'a list \<Rightarrow> 'a list" where
  "select_list sel xs = map snd (filter fst (zip sel xs))"

fun select_col :: "bool list \<Rightarrow> column \<Rightarrow> column" where
  "select_col sel (DoubleCol xs) = DoubleCol (select_list sel xs)"
| "select_col sel (BoolCol xs) = BoolCol (select_list sel xs)"
| "select_col sel (Vec3Col xs) = Vec3Col (select_list sel xs)"
| "select_col sel (MillerCol xs) = MillerCol (select_list sel xs)"

text \<open>\<^verbatim>\<open>table.select(sel)\<close>: a new table holding the selected rows of every column.\<close>

definition select_rows :: "reflection_table \<Rightarrow> bool list \<Rightarrow> reflection_table" where
  "select_rows t sel =
     \<lparr>nrows = length (filter id sel),
      flags = select_list sel (flags t),
      columns = (\<lambda>k. map_option (select_col sel) (columns t k))\<rparr>"

text \<open>\<^verbatim>\<open>array.set_selected(sel, value)\<close> with one value for every selected entry.\<close>

definition set_selected :: "'a list \<Rightarrow> bool list \<Rightarrow> 'a \<Rightarrow> 'a list" where
  "set_selected xs sel v = map (\<lambda>(s, x). if s then v else x) (zip sel xs)"

text \<open>
  \<^verbatim>\<open>array.set_selected(sel, values)\<close> with an array of values: the values are written, in
  order, to the selected positions.
\<close>

fun set_selected_values :: "'a list \<Rightarrow> bool list \<Rightarrow> 'a list \<Rightarrow> 'a list" where
  "set_selected_values (x # xs) (True # sel) (v # vs) = v # set_selected_values xs sel vs"
| "set_selected_values (x # xs) (False # sel) vs = x # set_selected_values xs sel vs"
| "set_selected_values xs sel vs = xs"

text \<open>
  \<^verbatim>\<open>table.get_flags(flag, all=False)\<close>: the rows with at least one bit of the flag set,
  and \<^verbatim>\<open>table.set_flags(sel, flag)\<close>: the flag is OR-ed into the selected rows.
\<close>

definition get_flags :: "reflection_table \<Rightarrow> nat \<Rightarrow> bool list" where
  "get_flags t flag = map (\<lambda>f. f AND flag \<noteq> 0) (flags t)"

definition set_flags :: "reflection_table \<Rightarrow> bool list \<Rightarrow> nat \<Rightarrow> error + reflection_table" where
  "set_flags t sel flag =
     (if length sel = nrows t
      then Inr (t\<lparr>flags := map (\<lambda>(s, f). if s then f OR flag else f) (zip sel (flags t))\<rparr>)
      else Inl SizeError)"

text \<open>Element-wise \<^verbatim>\<open>a & b\<close> and \<^verbatim>\<open>~a\<close> of boolean arrays.\<close>

definition and_sel :: "bool list \<Rightarrow> bool list \<Rightarrow> bool list" where
  "and_sel a b = map (\<lambda>(x, y). x \<and> y) (zip a b)"

definition not_sel :: "bool list \<Rightarrow> bool list" where
  "not_sel a = map Not a"

section \<open>Wilson outliers\<close>

text \<open>
  \<^verbatim>\<open>set_wilson_outliers\<close>. The value of the flag \<^verbatim>\<open>flags.outlier_in_scaling\<close> is
  declared outside this module and is a parameter here.
\<close>

definition centric_cutoff :: double where
  "centric_cutoff = Fin (2391 / 100)"

definition acentric_cutoff :: double where
  "acentric_cutoff = Fin (1382 / 100)"

definition set_wilson_outliers :: "nat \<Rightarrow> reflection_table \<Rightarrow> error + reflection_table" where
  "set_wilson_outliers outlier_in_scaling t =
     bind_err (get_bool t ''centric_flag'') (\<lambda>sel1.
     bind_err (get_double t ''Esq'') (\<lambda>esq.
     bind_err (set_flags t (and_sel sel1 (map (\<lambda>e. d_gt e centric_cutoff) esq)) outlier_in_scaling)
       (\<lambda>t1.
     bind_err (get_bool t1 ''centric_flag'') (\<lambda>cf.
     bind_err (get_double t1 ''Esq'') (\<lambda>esq1.
       set_flags t1 (and_sel (not_sel cf) (map (\<lambda>e. d_gt e acentric_cutoff) esq1))
         outlier_in_scaling)))))"

section \<open>The experiment and the external routines\<close>

text \<open>
  What the module reads from \<^verbatim>\<open>experiments\<close>: the beam vector
  (\<^verbatim>\<open>beam.get_s0()\<close>), the rotation axis (\<^verbatim>\<open>goniometer.get_rotation_axis()\<close>) and the
  crystal symmetry, which the module uses only to ask, index by index, whether a
  reflection is centric (\<^verbatim>\<open>miller_array.centric_flags().data()\<close>).
\<close>

record experiments =
  get_s0 :: vec3
  get_rotation_axis :: vec3
  is_centric :: "miller_index \<Rightarrow> bool"

text \<open>
  A \<^verbatim>\<open>miller.array\<close>: the indices and the data attached to them. The resolution binner
  (\<^verbatim>\<open>setup_binner_d_star_sq_step\<close>, \<^verbatim>\<open>mean(use_binning=...)\<close>, \<^verbatim>\<open>limits()\<close>) belongs
  to the symmetry library and is a parameter: from the indices and data of one class and
  the step it gives the mean of every bin (\<open>None\<close> for an empty bin), the two edge bins
  included, and the bin limits.
\<close>

record miller_array =
  indices :: "miller_index list"
  data :: "double list"

type_synonym binner =
  "miller_index list \<Rightarrow> double list \<Rightarrow> double \<Rightarrow> error + (double option list \<times> double list)"

text \<open>
  The vector rotator \<^verbatim>\<open>rotate_vectors_about_axis\<close> is compiled code of the scaling
  extension and is a parameter: axis (an array holding one vector), vectors, angles.
\<close>

type_synonym rotator = "vec3 list \<Rightarrow> vec3 list \<Rightarrow> double list \<Rightarrow> error + vec3 list"

section \<open>Normalised intensities\<close>

text \<open>\<^verbatim>\<open>1.0/d**2\<close>, element by element; nothing is substituted for a zero.\<close>

definition reciprocal_sq :: "double list \<Rightarrow> double list" where
  "reciprocal_sq d = map (\<lambda>x. d_div (Fin 1) (d_mul x x)) d"

text \<open>
  Python's \<^verbatim>\<open>max\<close> and \<^verbatim>\<open>min\<close> of a sequence: the first item is kept until a later one
  compares greater (smaller); an empty sequence raises.
\<close>

definition py_max :: "double list \<Rightarrow> error + double" where
  "py_max xs =
     (case xs of [] \<Rightarrow> Inl ValueError
      | x # rest \<Rightarrow> Inr (fold (\<lambda>y m. if d_gt y m then y else m) rest x))"

definition py_min :: "double list \<Rightarrow> error + double" where
  "py_min xs =
     (case xs of [] \<Rightarrow> Inl ValueError
      | x # rest \<Rightarrow> Inr (fold (\<lambda>y m. if d_lt y m then y else m) rest x))"

definition count_true :: "bool list \<Rightarrow> nat" where
  "count_true bs = length (filter id bs)"

text \<open>
  Lines 200 to 218: the statistics subset (the rows not flagged bad for scaling) with
  its working columns, and the miller array of the clamped intensities. The value of
  \<^verbatim>\<open>flags.bad_for_scaling\<close> is declared outside this module and is a parameter.
\<close>

definition normE2_subset ::
  "nat \<Rightarrow> reflection_table \<Rightarrow> experiments \<Rightarrow> error + (reflection_table \<times> miller_array)" where
  "normE2_subset bad_for_scaling t ex =
     (let bad_refl_sel = get_flags t bad_for_scaling;
          rt_subset = select_rows t (not_sel bad_refl_sel) in
      bind_err (get_miller rt_subset ''miller_index'') (\<lambda>idx.
      bind_err (get_double rt_subset ''d'') (\<lambda>d.
      bind_err (setitem rt_subset ''resolution'' (DoubleCol (reciprocal_sq d))) (\<lambda>rt1.
      bind_err (get_double rt1 ''intensity'') (\<lambda>intensity.
      bind_err (setitem rt1 ''intensity_for_norm'' (DoubleCol intensity)) (\<lambda>rt2.
      bind_err (get_double rt2 ''intensity_for_norm'') (\<lambda>work.
      bind_err (get_double rt2 ''intensity'') (\<lambda>intensity2.
        let rt3 = put_double rt2 ''intensity_for_norm''
                    (set_selected work (map (\<lambda>x. d_lt x (Fin 0)) intensity2) (Fin 0)) in
      bind_err (get_double rt3 ''intensity_for_norm'') (\<lambda>clamped.
        let ma = \<lparr>indices = idx, data = clamped\<rparr> in
      bind_err (setitem rt3 ''centric_flag'' (BoolCol (map (is_centric ex) (indices ma))))
        (\<lambda>rt4. Inr (rt4, ma)))))))))))"

text \<open>Lines 222 to 237: the number of resolution shells; \<open>None\<close> is the fallback.\<close>

definition n_refl_shells :: "nat \<Rightarrow> nat \<Rightarrow> nat option" where
  "n_refl_shells n_acentrics n_centrics =
     (if n_acentrics > 20000 \<or> n_centrics > 20000 then Some 20
      else if n_acentrics > 15000 \<or> n_centrics > 15000 then Some 15
      else if n_acentrics < 10000 then None
      else Some 10)"

text \<open>
  What the function logs on its way out: the notice of the fallback, or the counts of
  centric and acentric reflections and the number of shells used.
\<close>

datatype notice = NoNormalisation | ShellsUsed nat nat nat

text \<open>Lines 227 to 235: the fallback.\<close>

definition normE2_insufficient :: "reflection_table \<Rightarrow> error + reflection_table" where
  "normE2_insufficient t =
     bind_err (setitem t ''Esq'' (DoubleCol (replicate (nrows t) (Fin 1)))) (\<lambda>t1.
       Inr (delitem (delitem (delitem t1 ''intensity_for_norm'') ''centric_flag'')
              ''resolution''))"

text \<open>
  Lines 240 to 256: the bin means and limits of each class that has a member. Of the
  means, \<^verbatim>\<open>data[1:-1]\<close> drops the two edge bins.
\<close>

definition class_bins ::
  "binner \<Rightarrow> miller_array \<Rightarrow> bool list \<Rightarrow> double \<Rightarrow> error + (double option list \<times> double list)"
  where
  "class_bins binner ma sel step =
     bind_err (binner (select_list sel (indices ma)) (select_list sel (data ma)) step)
       (\<lambda>(mean_data, bin_limits). Inr (butlast (tl mean_data), bin_limits))"

definition bin_averages ::
  "binner \<Rightarrow> experiments \<Rightarrow> reflection_table \<Rightarrow> miller_array \<Rightarrow> nat \<Rightarrow> nat \<Rightarrow> nat \<Rightarrow>
   error + ((double option list \<times> double list) option \<times>
            (double option list \<times> double list) option)" where
  "bin_averages binner ex rt_subset ma n_centrics n_acentrics n_shells =
     bind_err (get_double rt_subset ''resolution'') (\<lambda>res.
     bind_err (py_max res) (\<lambda>mx.
     bind_err (py_min res) (\<lambda>mn.
       let step = d_div (d_add (d_sub mx mn) (Fin (1 / 10 ^ 8))) (Fin (real n_shells));
           centric = map (is_centric ex) (indices ma) in
     bind_err (if n_centrics \<noteq> 0
               then bind_err (class_bins binner ma centric step) (\<lambda>b. Inr (Some b))
               else Inr None) (\<lambda>centric_bins.
     bind_err (if n_acentrics \<noteq> 0
               then bind_err (class_bins binner ma (not_sel centric) step) (\<lambda>b. Inr (Some b))
               else Inr None) (\<lambda>acentric_bins.
       Inr (centric_bins, acentric_bins))))))"

text \<open>
  Lines 270 to 275 (and 278 to 283): one pass of the loop over the shells. A mean that
  is \<^verbatim>\<open>None\<close> cannot divide an array.
\<close>

definition py_index :: "'a list \<Rightarrow> nat \<Rightarrow> error + 'a" where
  "py_index xs i = (if i < length xs then Inr (xs ! i) else Inl IndexError)"

definition divide_by :: "double list \<Rightarrow> double option \<Rightarrow> error + double list" where
  "divide_by xs m =
     (case m of None \<Rightarrow> Inl TypeError | Some v \<Rightarrow> Inr (map (\<lambda>x. d_div x v) xs))"

definition shell_update ::
  "bool list \<Rightarrow> double list \<Rightarrow> double option list \<Rightarrow> nat \<Rightarrow> reflection_table \<Rightarrow>
   error + reflection_table" where
  "shell_update sel1 bin_limits mean_values i t =
     bind_err (get_double t ''resolution'') (\<lambda>res.
       let sel2 = map (\<lambda>r. d_gt r (bin_limits ! i)) res in
     bind_err (get_double t ''resolution'') (\<lambda>res3.
       let sel3 = map (\<lambda>r. d_le r (bin_limits ! (i + 1))) res3;
           sel = and_sel (and_sel sel1 sel2) sel3 in
     bind_err (get_double t ''intensity'') (\<lambda>intensity.
       let intensities = select_list sel intensity in
     bind_err (get_double t ''Esq'') (\<lambda>esq.
     bind_err (py_index mean_values i) (\<lambda>m.
     bind_err (divide_by intensities m) (\<lambda>vals.
       Inr (put_double t ''Esq'' (set_selected_values esq sel vals))))))))"

fun shell_loop ::
  "bool list \<Rightarrow> double list \<Rightarrow> double option list \<Rightarrow> nat list \<Rightarrow> reflection_table \<Rightarrow>
   error + reflection_table" where
  "shell_loop sel1 bin_limits mean_values [] t = Inr t"
| "shell_loop sel1 bin_limits mean_values (i # rest) t =
     (case shell_update sel1 bin_limits mean_values i t of
        Inl e \<Rightarrow> Inl e
      | Inr t' \<Rightarrow> shell_loop sel1 bin_limits mean_values rest t')"

text \<open>
  Lines 259 to 266: the full table gets its \<open>Esq\<close> column of zeros, its centric flags
  and its resolution, with 1 put for every \<open>d\<close> of zero; the selection of those rows is
  kept for the end.
\<close>

definition normE2_prepare ::
  "experiments \<Rightarrow> reflection_table \<Rightarrow> error + (reflection_table \<times> bool list)" where
  "normE2_prepare ex t =
     bind_err (get_miller t ''miller_index'') (\<lambda>idx.
     bind_err (setitem t ''Esq'' (DoubleCol (replicate (nrows t) (Fin 0)))) (\<lambda>t1.
     bind_err (setitem t1 ''centric_flag'' (BoolCol (map (is_centric ex) idx))) (\<lambda>t2.
     bind_err (get_double t2 ''d'') (\<lambda>d.
       let d0_sel = map (\<lambda>x. d_eq x (Fin 0)) d in
     bind_err (get_double t2 ''d'') (\<lambda>d'.
       let t3 = put_double t2 ''d'' (set_selected d' d0_sel (Fin 1)) in
     bind_err (get_double t3 ''d'') (\<lambda>d1.
     bind_err (setitem t3 ''resolution'' (DoubleCol (reciprocal_sq d1))) (\<lambda>t4.
       Inr (t4, d0_sel))))))))"

text \<open>
  Lines 268 to 275 and 276 to 283: the loops over the shells of the two classes. A class
  without a member has no bins and its loop is skipped.
\<close>

definition centric_shells ::
  "(double option list \<times> double list) option \<Rightarrow> reflection_table \<Rightarrow> error + reflection_table"
  where
  "centric_shells centric_bins t =
     (case centric_bins of None \<Rightarrow> Inr t
      | Some (mean_centric_values, centric_bin_limits) \<Rightarrow>
          bind_err (get_bool t ''centric_flag'') (\<lambda>sel1.
            shell_loop sel1 centric_bin_limits mean_centric_values
              [0 ..< length centric_bin_limits - 1] t))"

definition acentric_shells ::
  "(double option list \<times> double list) option \<Rightarrow> reflection_table \<Rightarrow> error + reflection_table"
  where
  "acentric_shells acentric_bins t =
     (case acentric_bins of None \<Rightarrow> Inr t
      | Some (mean_acentric_values, acentric_bin_limits) \<Rightarrow>
          bind_err (get_bool t ''centric_flag'') (\<lambda>cf.
            shell_loop (not_sel cf) acentric_bin_limits mean_acentric_values
              [0 ..< length acentric_bin_limits - 1] t))"

text \<open>
  Lines 284 to 288: the working columns are deleted, and the rows whose \<open>d\<close> was zero
  get their \<open>d\<close> back and an \<open>Esq\<close> of zero.
\<close>

definition normE2_finish :: "bool list \<Rightarrow> reflection_table \<Rightarrow> error + reflection_table" where
  "normE2_finish d0_sel t =
     (let t7 = delitem (delitem (delitem t ''intensity_for_norm'') ''centric_flag'')
                 ''resolution'' in
      bind_err (get_double t7 ''d'') (\<lambda>d2.
        let t8 = put_double t7 ''d'' (set_selected d2 d0_sel (Fin 0)) in
      bind_err (get_double t8 ''Esq'') (\<lambda>esq.
        Inr (put_double t8 ''Esq'' (set_selected esq d0_sel (Fin 0))))))"

text \<open>Lines 259 to 288: the normalised intensities of the full table.\<close>

definition normE2_full_table ::
  "experiments \<Rightarrow> (double option list \<times> double list) option \<Rightarrow>
   (double option list \<times> double list) option \<Rightarrow> reflection_table \<Rightarrow> error + reflection_table"
  where
  "normE2_full_table ex centric_bins acentric_bins t =
     bind_err (normE2_prepare ex t) (\<lambda>(t4, d0_sel).
     bind_err (centric_shells centric_bins t4) (\<lambda>t5.
     bind_err (acentric_shells acentric_bins t5) (\<lambda>t6.
       normE2_finish d0_sel t6)))"

text \<open>\<^verbatim>\<open>calc_normE2\<close>: the returned table and what was logged on the way out.\<close>

definition calc_normE2 ::
  "nat \<Rightarrow> binner \<Rightarrow> reflection_table \<Rightarrow> experiments \<Rightarrow> error + (reflection_table \<times> notice)"
  where
  "calc_normE2 bad_for_scaling binner t ex =
     bind_err (normE2_subset bad_for_scaling t ex) (\<lambda>(rt_subset, ma).
     bind_err (get_bool rt_subset ''centric_flag'') (\<lambda>cf.
       let n_centrics = count_true cf;
           n_acentrics = nrows rt_subset - n_centrics in
       case n_refl_shells n_acentrics n_centrics of
         None \<Rightarrow> bind_err (normE2_insufficient t) (\<lambda>t'. Inr (t', NoNormalisation))
       | Some n \<Rightarrow>
           bind_err (bin_averages binner ex rt_subset ma n_centrics n_acentrics n)
             (\<lambda>(centric_bins, acentric_bins).
           bind_err (normE2_full_table ex centric_bins acentric_bins t) (\<lambda>t'.
             Inr (t', ShellsUsed n_centrics n_acentrics n)))))"

section \<open>Crystal frame vectors\<close>

text \<open>
  \<^verbatim>\<open>align_rotation_axis_along_z\<close>. The components of the axis are Python floats: their
  division raises on a zero divisor and \<^verbatim>\<open>acos\<close> raises outside \<open>[-1, 1]\<close>.
\<close>

definition py_div :: "real \<Rightarrow> real \<Rightarrow> error + real" where
  "py_div a b = (if b = 0 then Inl ZeroDivisionError else Inr (a / b))"

definition py_acos :: "real \<Rightarrow> error + real" where
  "py_acos x = (if - 1 \<le> x \<and> x \<le> 1 then Inr (arccos x) else Inl ValueError)"

definition align_rotation_axis_along_z ::
  "rotator \<Rightarrow> vec3 list \<Rightarrow> vec3 list \<Rightarrow> error + vec3 list" where
  "align_rotation_axis_along_z rotate_vectors_about_axis exp_rot_axis vectors =
     (if exp_rot_axis = [(0, 0, 1)] then Inr vectors
      else
        bind_err (py_index exp_rot_axis 0) (\<lambda>(ux, uy, uz).
          let cross_prod_uz = [(uy, - 1 * ux, 0)] in
        bind_err (py_div uz (sqrt (ux\<^sup>2 + uy\<^sup>2 + uz\<^sup>2))) (\<lambda>c.
        bind_err (py_acos c) (\<lambda>a.
          let angle_between_u_z = 1 * a;
              phi = replicate (length vectors) (Fin angle_between_u_z) in
          rotate_vectors_about_axis cross_prod_uz vectors phi))))"

text \<open>\<^verbatim>\<open>calc_crystal_frame_vectors\<close>.\<close>

definition calc_crystal_frame_vectors ::
  "rotator \<Rightarrow> reflection_table \<Rightarrow> experiments \<Rightarrow> error + reflection_table" where
  "calc_crystal_frame_vectors rotate_vectors_about_axis t ex =
     bind_err (setitem t ''s0'' (Vec3Col (replicate (nrows t) (get_s0 ex)))) (\<lambda>t1.
       let rot_axis = [get_rotation_axis ex] in
     bind_err (get_double t1 ''phi'') (\<lambda>phi.
       let angles = map (\<lambda>p. d_div (d_mul (d_mul p (Fin (- 1))) (Fin pi)) (Fin 180)) phi in
     bind_err (get_vec3 t1 ''s1'') (\<lambda>s1.
     bind_err (rotate_vectors_about_axis rot_axis s1 angles) (\<lambda>r1.
     bind_err (setitem t1 ''s1c'' (Vec3Col r1)) (\<lambda>t2.
     bind_err (get_vec3 t2 ''s0'') (\<lambda>s0.
     bind_err (rotate_vectors_about_axis rot_axis s0 angles) (\<lambda>r0.
     bind_err (setitem t2 ''s0c'' (Vec3Col r0)) (\<lambda>t3.
     bind_err (get_vec3 t3 ''s1c'') (\<lambda>s1c.
     bind_err (align_rotation_axis_along_z rotate_vectors_about_axis rot_axis s1c) (\<lambda>a1.
     bind_err (setitem t3 ''s1c'' (Vec3Col a1)) (\<lambda>t4.
     bind_err (get_vec3 t4 ''s0c'') (\<lambda>s0c.
     bind_err (align_rotation_axis_along_z rotate_vectors_about_axis rot_axis s0c) (\<lambda>a0.
       setitem t4 ''s0c'' (Vec3Col a0))))))))))))))"

section \<open>Reading the statistics off a table\<close>

text \<open>
  The number of reflections of one class (\<open>c\<close> true for centric) among the rows that
  carry no bit of \<open>bad_for_scaling\<close>: the counts \<^verbatim>\<open>n_centrics\<close> and \<^verbatim>\<open>n_acentrics\<close>
  of the statistics subset, written as a count over the rows of the full table.
\<close>

definition class_count ::
  "experiments \<Rightarrow> nat \<Rightarrow> nat list \<Rightarrow> miller_index list \<Rightarrow> bool \<Rightarrow> nat" where
  "class_count ex bad_for_scaling fl idx c =
     length (filter (\<lambda>(f, h). f AND bad_for_scaling = 0 \<and> is_centric ex h = c) (zip fl idx))"

text \<open>
  The resolution the full-table pass gives a row: \<open>1/d\<^sup>2\<close>, with 1 standing in for a
  \<open>d\<close> of zero. And whether a resolution lies in one of the shells of the bins of a class:
  above the lower limit of the shell and at most its upper limit.
\<close>

definition row_resolution :: "double \<Rightarrow> double" where
  "row_resolution d =
     (let d1 = (if d_eq d (Fin 0) then Fin 1 else d) in d_div (Fin 1) (d_mul d1 d1))"

definition in_shell :: "double list \<Rightarrow> double \<Rightarrow> nat \<Rightarrow> bool" where
  "in_shell bin_limits r j \<longleftrightarrow> d_gt r (bin_limits ! j) \<and> d_le r (bin_limits ! (j + 1))"

definition in_some_shell :: "(double option list \<times> double list) option \<Rightarrow> double \<Rightarrow> bool" where
  "in_some_shell bins r =
     (case bins of None \<Rightarrow> False
      | Some (mean_values, bin_limits) \<Rightarrow>
          list_ex (in_shell bin_limits r) [0 ..< length bin_limits - 1])"

text \<open>
  The normalised intensity of one row, read off the loops row by row. A pass over the
  shells of one class touches a row only if the row is a member of the class, and then
  every shell the row's resolution lies in writes the quotient of the row's intensity and
  the mean of the shell. The centric pass comes first, then the acentric one, and a row
  whose \<open>d\<close> is zero ends with zero.
\<close>

definition shell_value :: "double option list \<Rightarrow> nat \<Rightarrow> double \<Rightarrow> double \<Rightarrow> double" where
  "shell_value mean_values i intensity e =
     (case mean_values ! i of Some m \<Rightarrow> d_div intensity m | None \<Rightarrow> e)"

definition class_pass ::
  "(double option list \<times> double list) option \<Rightarrow> bool \<Rightarrow> double \<Rightarrow> double \<Rightarrow> double \<Rightarrow> double"
  where
  "class_pass bins member r intensity e =
     (case bins of None \<Rightarrow> e
      | Some (mean_values, bin_limits) \<Rightarrow>
          fold (\<lambda>i e. if member \<and> in_shell bin_limits r i
                      then shell_value mean_values i intensity e else e)
            [0 ..< length bin_limits - 1] e)"

definition row_esq ::
  "experiments \<Rightarrow> (double option list \<times> double list) option \<Rightarrow>
   (double option list \<times> double list) option \<Rightarrow> miller_index \<Rightarrow> double \<Rightarrow> double \<Rightarrow> double"
  where
  "row_esq ex centric_bins acentric_bins h d intensity =
     (if d_eq d (Fin 0) then Fin 0
      else class_pass acentric_bins (\<not> is_centric ex h) (row_resolution d) intensity
             (class_pass centric_bins (is_centric ex h) (row_resolution d) intensity (Fin 0)))"

text \<open>The bin means of a class are all finite and positive (an empty bin has none).\<close>

fun positive_mean :: "double option \<Rightarrow> bool" where
  "positive_mean None = True"
| "positive_mean (Some (Fin v)) = (0 < v)"
| "positive_mean (Some x) = False"

definition positive_means :: "(double option list \<times> double list) option \<Rightarrow> bool" where
  "positive_means bins =
     (case bins of None \<Rightarrow> True | Some (mean_values, bin_limits) \<Rightarrow> list_all positive_mean mean_values)"

text \<open>
  Two readings used in the proofs: the clamped intensities of the working column, and
  bins whose every shell has a mean to divide by (what the loops need to run through).
\<close>

definition clamp_negative :: "double list \<Rightarrow> double list" where
  "clamp_negative xs = set_selected xs (map (\<lambda>x. d_lt x (Fin 0)) xs) (Fin 0)"

definition usable_bins :: "(double option list \<times> double list) option \<Rightarrow> bool" where
  "usable_bins bins =
     (case bins of None \<Rightarrow> True
      | Some (means, limits) \<Rightarrow> \<forall>i < length limits - 1. i < length means \<and> means ! i \<noteq> None)"

text \<open>The normalised intensity of row \<open>j\<close> in what \<^verbatim>\<open>calc_normE2\<close> returned.\<close>

definition esq_of :: "error + (reflection_table \<times> notice) \<Rightarrow> nat \<Rightarrow> error + double" where
  "esq_of r j =
     bind_err r (\<lambda>(t', note). bind_err (get_double t' ''Esq'') (\<lambda>esq. py_index esq j))"

section \<open>Example tables\<close>

text \<open>
  Three rows: a centric one above the centric cutoff, an acentric one far below its cutoff
  whose flag word already carries the outlier bit, and an acentric one above its cutoff.
\<close>

definition wilson_example :: reflection_table where
  "wilson_example =
     \<lparr>nrows = 3, flags = [0, 4, 0],
      columns = [''centric_flag'' \<mapsto> BoolCol [True, False, False],
                 ''Esq'' \<mapsto> DoubleCol [Fin 24, Fin 1, Fin 14]]\<rparr>"

text \<open>
  An example rotator, to run the frame transformation on concrete inputs: Rodrigues'
  formula about the normalised axis, for finite angles. It refuses a zero axis, which has
  no direction to normalise.
\<close>

definition rotate_one :: "vec3 \<Rightarrow> real \<Rightarrow> vec3 \<Rightarrow> vec3" where
  "rotate_one k a v =
     (case k of (kx, ky, kz) \<Rightarrow> case v of (x, y, z) \<Rightarrow>
        let c = cos a; s = sin a; dot = kx * x + ky * y + kz * z in
        (x * c + (ky * z - kz * y) * s + kx * dot * (1 - c),
         y * c + (kz * x - kx * z) * s + ky * dot * (1 - c),
         z * c + (kx * y - ky * x) * s + kz * dot * (1 - c)))"

fun finite_angle :: "double \<Rightarrow> real option" where
  "finite_angle (Fin a) = Some a"
| "finite_angle x = None"

definition rodrigues :: rotator where
  "rodrigues axis vectors angles =
     (case axis of [] \<Rightarrow> Inl IndexError
      | (ux, uy, uz) # rest \<Rightarrow>
          let n = sqrt (ux\<^sup>2 + uy\<^sup>2 + uz\<^sup>2) in
          if n = 0 \<or> length angles \<noteq> length vectors \<or> None \<in> set (map finite_angle angles)
          then Inl ValueError
          else Inr (map (\<lambda>(v, a). rotate_one (ux / n, uy / n, uz / n) (the (finite_angle a)) v)
                      (zip vectors angles)))"

text \<open>
  Two reflections observed at 0 and at 180 degrees, and an experiment whose rotation axis
  is the reference axis and whose centric reflections are those on the \<open>l\<close> axis.
\<close>

definition frame_example :: reflection_table where
  "frame_example =
     \<lparr>nrows = 2, flags = [0, 0],
      columns = [''phi'' \<mapsto> DoubleCol [Fin 0, Fin 180],
                 ''s1'' \<mapsto> Vec3Col [(1, 0, 0), (0, 1, 0)],
                 ''d'' \<mapsto> DoubleCol [Fin 2, Fin 3]]\<rparr>"

definition z_experiment :: experiments where
  "z_experiment =
     \<lparr>get_s0 = (0, 0, 1), get_rotation_axis = (0, 0, 1),
      is_centric = (\<lambda>(h, k, l). h = 0 \<and> k = 0)\<rparr>"

text \<open>
  An example binner, to run the normalisation on concrete inputs: between the two edge
  bins, one shell from 1/4 to 2 whose mean is the arithmetic mean of the data it is given.
\<close>

definition arithmetic_mean :: "double list \<Rightarrow> double" where
  "arithmetic_mean xs = d_div (fold d_add xs (Fin 0)) (Fin (real (length xs)))"

definition mean_binner :: binner where
  "mean_binner idx xs step =
     Inr ([None, Some (arithmetic_mean xs), None], [Fin (1 / 4), Fin 2])"

text \<open>
  A table of 20003 reflections, with \<open>bad_for_scaling = 1\<close>: 10000 centric ones of
  intensity 0 and 10000 acentric ones of intensity 2, all with \<open>d = 1\<close>; then three
  acentric ones: one of intensity -4, one with \<open>d = 0\<close> that is flagged bad, and one
  with \<open>d = 2\<close>, whose resolution 1/4 is the lowest limit of the example binner.
\<close>

definition large_example :: reflection_table where
  "large_example =
     \<lparr>nrows = 20003,
      flags = replicate 10000 0 @ replicate 10000 0 @ [0, 1, 0],
      columns =
        [''miller_index'' \<mapsto>
           MillerCol (replicate 10000 (0, 0, 1) @ replicate 10000 (1, 0, 0) @
                      [(1, 0, 0), (1, 0, 0), (1, 0, 0)]),
         ''d'' \<mapsto>
           DoubleCol (replicate 10000 (Fin 1) @ replicate 10000 (Fin 1) @
                      [Fin 1, Fin 0, Fin 2]),
         ''intensity'' \<mapsto>
           DoubleCol (replicate 10000 (Fin 0) @ replicate 10000 (Fin 2) @
                      [Fin (- 4), Fin 2, Fin 2])]\<rparr>"

text \<open>
  Three reflections, none flagged: a centric one, an acentric one and an acentric one
  with \<open>d = 0\<close>.
\<close>

definition small_example :: reflection_table where
  "small_example =
     \<lparr>nrows = 3, flags = [0, 0, 0],
      columns =
        [''miller_index'' \<mapsto> MillerCol [(0, 0, 1), (1, 0, 0), (1, 1, 0)],
         ''d'' \<mapsto> DoubleCol [Fin 1, Fin 2, Fin 0],
         ''intensity'' \<mapsto> DoubleCol [Fin 5, Fin (- 1), Fin 3]]\<rparr>"

section \<open>Properties of the tables\<close>

lemma wf_double_len:
  "wf_table t \<Longrightarrow> columns t k = Some (DoubleCol xs) \<Longrightarrow> length xs = nrows t"
  unfolding wf_table_def by fastforce

lemma wf_bool_len:
  "wf_table t \<Longrightarrow> columns t k = Some (BoolCol xs) \<Longrightarrow> length xs = nrows t"
  unfolding wf_table_def by fastforce

lemma or_and_flag: "(f OR F) AND F = (F::nat)"
  by (rule bit_eqI) (auto simp: bit_and_iff bit_or_iff)

lemma wf_wilson_example: "wf_table wilson_example"
  by (auto simp: wf_table_def wilson_example_def split: if_splits)

section \<open>Outlier flags\<close>

text \<open>
  C3. On a well-formed table that holds the columns \<open>Esq\<close> and \<open>centric_flag\<close>,
  \<^verbatim>\<open>set_wilson_outliers\<close> returns the table with its columns and row count untouched, and
  the flag word of a row becomes the old word OR-ed with \<open>outlier_in_scaling\<close> exactly when
  the row is centric with \<open>Esq > 23.91\<close> or acentric with \<open>Esq > 13.82\<close>; every other row
  keeps its word. So a row carries the outlier flag afterwards if and only if it carried it
  before or meets the cutoff of its class: the call marks the rows above their cutoff and
  never clears a flag that was set.
\<close>

theorem set_wilson_outliers_flags:
  assumes wf: "wf_table t"
    and cf: "columns t ''centric_flag'' = Some (BoolCol cf)"
    and esq: "columns t ''Esq'' = Some (DoubleCol esq)"
  shows "\<exists>t'. set_wilson_outliers F t = Inr t' \<and> nrows t' = nrows t \<and> columns t' = columns t \<and>
           length (flags t') = nrows t \<and>
           (\<forall>i < nrows t.
              flags t' ! i =
                (if (cf ! i \<and> d_gt (esq ! i) (Fin (2391 / 100))) \<or>
                    (\<not> cf ! i \<and> d_gt (esq ! i) (Fin (1382 / 100)))
                 then flags t ! i OR F else flags t ! i) \<and>
              (F \<noteq> 0 \<longrightarrow>
                 get_flags t' F ! i =
                   (get_flags t F ! i \<or> (cf ! i \<and> d_gt (esq ! i) (Fin (2391 / 100))) \<or>
                    (\<not> cf ! i \<and> d_gt (esq ! i) (Fin (1382 / 100))))))"
proof -
  have lc: "length cf = nrows t" using wf cf by (rule wf_bool_len)
  have le: "length esq = nrows t" using wf esq by (rule wf_double_len)
  have lf: "length (flags t) = nrows t" using wf by (simp add: wf_table_def)
  show ?thesis
    using lc le lf cf esq
    by (auto simp: set_wilson_outliers_def bind_err_def get_bool_def get_double_def set_flags_def
        and_sel_def not_sel_def get_flags_def centric_cutoff_def acentric_cutoff_def or_and_flag)
qed

theorem set_wilson_outliers_flags_witness:
  "\<exists>t'. set_wilson_outliers 4 wilson_example = Inr t' \<and> flags t' = [4, 4, 4]"
proof -
  have c: "columns wilson_example ''centric_flag'' = Some (BoolCol [True, False, False])"
    by (simp add: wilson_example_def)
  have e: "columns wilson_example ''Esq'' = Some (DoubleCol [Fin 24, Fin 1, Fin 14])"
    by (simp add: wilson_example_def)
  from set_wilson_outliers_flags [OF wf_wilson_example c e, of 4]
  obtain t' where r: "set_wilson_outliers 4 wilson_example = Inr t'"
    and l: "length (flags t') = nrows wilson_example"
    and f: "\<forall>i < nrows wilson_example.
              flags t' ! i =
                (if ([True, False, False] ! i \<and>
                     d_gt ([Fin 24, Fin 1, Fin 14] ! i) (Fin (2391 / 100))) \<or>
                    (\<not> [True, False, False] ! i \<and>
                     d_gt ([Fin 24, Fin 1, Fin 14] ! i) (Fin (1382 / 100)))
                 then flags wilson_example ! i OR 4 else flags wilson_example ! i)"
    by blast
  have n: "nrows wilson_example = 3" by (simp add: wilson_example_def)
  have "flags t' ! 0 = 4" "flags t' ! 1 = 4" "flags t' ! 2 = 4"
    using f n by (simp_all add: wilson_example_def d_gt_def)
  moreover have "length (flags t') = 3" using l n by simp
  ultimately have "flags t' = [4, 4, 4]"
    by (auto simp: list_eq_iff_nth_eq less_Suc_eq numeral_3_eq_3 numeral_2_eq_2)
  with r show ?thesis by blast
qed

section \<open>Reading the result of a sequence of steps\<close>

lemma bind_err_Inr: "bind_err m f = Inr y \<longleftrightarrow> (\<exists>x. m = Inr x \<and> f x = Inr y)"
  by (cases m) (simp_all add: bind_err_def)

lemma setitem_Inr:
  "setitem t k c = Inr t' \<longleftrightarrow> col_size c = nrows t \<and> t' = t\<lparr>columns := (columns t)(k \<mapsto> c)\<rparr>"
  by (auto simp: setitem_def)

lemma get_double_Inr: "get_double t k = Inr xs \<longleftrightarrow> columns t k = Some (DoubleCol xs)"
  by (auto simp: get_double_def split: option.splits column.splits)

lemma get_vec3_Inr: "get_vec3 t k = Inr xs \<longleftrightarrow> columns t k = Some (Vec3Col xs)"
  by (auto simp: get_vec3_def split: option.splits column.splits)

lemma get_miller_Inr: "get_miller t k = Inr xs \<longleftrightarrow> columns t k = Some (MillerCol xs)"
  by (auto simp: get_miller_def split: option.splits column.splits)

section \<open>The crystal frame\<close>

lemma align_reference_axis: "align_rotation_axis_along_z R [(0, 0, 1)] vs = Inr vs"
  by (simp add: align_rotation_axis_along_z_def)

lemma direction_cosine_bounds:
  fixes ux uy uz :: real
  assumes "sqrt (ux\<^sup>2 + uy\<^sup>2 + uz\<^sup>2) \<noteq> 0"
  shows "- 1 \<le> uz / sqrt (ux\<^sup>2 + uy\<^sup>2 + uz\<^sup>2) \<and> uz / sqrt (ux\<^sup>2 + uy\<^sup>2 + uz\<^sup>2) \<le> 1"
proof -
  let ?n = "sqrt (ux\<^sup>2 + uy\<^sup>2 + uz\<^sup>2)"
  have "uz\<^sup>2 \<le> ux\<^sup>2 + uy\<^sup>2 + uz\<^sup>2" by simp
  then have "sqrt (uz\<^sup>2) \<le> ?n" by (rule real_sqrt_le_mono)
  then have a: "\<bar>uz\<bar> \<le> ?n" by simp
  have pos: "0 < ?n" using assms a by (smt (verit) abs_ge_zero)
  have "\<bar>uz / ?n\<bar> \<le> 1" using a pos by (simp add: abs_divide)
  then have "uz / ?n \<le> 1" and "- (uz / ?n) \<le> 1"
    by (simp_all only: abs_le_iff)
  then show ?thesis by linarith
qed

lemma frame_example_run:
  "calc_crystal_frame_vectors rodrigues frame_example z_experiment =
     Inr (frame_example\<lparr>columns := (columns frame_example)
            (''s0'' \<mapsto> Vec3Col [(0, 0, 1), (0, 0, 1)],
             ''s1c'' \<mapsto> Vec3Col [(1, 0, 0), (0, - 1, 0)],
             ''s0c'' \<mapsto> Vec3Col [(0, 0, 1), (0, 0, 1)])\<rparr>)"
  by (simp add: calc_crystal_frame_vectors_def frame_example_def z_experiment_def bind_err_def
      setitem_def get_double_def get_vec3_def rodrigues_def rotate_one_def Let_def
      align_rotation_axis_along_z_def numeral_2_eq_2 fun_upd_twist)

text \<open>
  C7. The special case of \<^verbatim>\<open>align_rotation_axis_along_z\<close> is the test that the axis
  equals \<open>(0, 0, 1)\<close>: there the input vectors are returned and no angle is computed.
  Every other axis goes through the angle computation, also one whose cross product with
  the reference axis has zero length: the division by the length of the axis raises when
  the axis is the zero vector, and otherwise the vectors are rotated about
  \<open>(uy, -ux, 0)\<close> by the angle between the axis and the reference axis.
\<close>

theorem align_special_case:
  "align_rotation_axis_along_z R [(0, 0, 1)] vs = Inr vs \<and>
   ((ux, uy, uz) \<noteq> (0, 0, 1) \<longrightarrow>
      align_rotation_axis_along_z R [(ux, uy, uz)] vs =
        (if sqrt (ux\<^sup>2 + uy\<^sup>2 + uz\<^sup>2) = 0 then Inl ZeroDivisionError
         else R [(uy, - ux, 0)] vs
                (replicate (length vs) (Fin (arccos (uz / sqrt (ux\<^sup>2 + uy\<^sup>2 + uz\<^sup>2)))))))"
proof (intro conjI impI)
  show "align_rotation_axis_along_z R [(0, 0, 1)] vs = Inr vs"
    by (simp add: align_rotation_axis_along_z_def)
next
  assume ne: "(ux, uy, uz) \<noteq> (0, 0, 1)"
  show "align_rotation_axis_along_z R [(ux, uy, uz)] vs =
        (if sqrt (ux\<^sup>2 + uy\<^sup>2 + uz\<^sup>2) = 0 then Inl ZeroDivisionError
         else R [(uy, - ux, 0)] vs
                (replicate (length vs) (Fin (arccos (uz / sqrt (ux\<^sup>2 + uy\<^sup>2 + uz\<^sup>2))))))"
  proof (cases "sqrt (ux\<^sup>2 + uy\<^sup>2 + uz\<^sup>2) = 0")
    case True
    with ne show ?thesis
      by (auto simp: align_rotation_axis_along_z_def py_index_def bind_err_def py_div_def)
  next
    case False
    from direction_cosine_bounds [OF False] False ne show ?thesis
      by (auto simp: align_rotation_axis_along_z_def py_index_def bind_err_def py_div_def
          py_acos_def)
  qed
qed

theorem align_special_case_witness:
  "((1, 0, 0) :: vec3) \<noteq> (0, 0, 1) \<and>
   align_rotation_axis_along_z rodrigues [(1, 0, 0)] [(0, 0, 1)] = Inr [(- 1, 0, 0)]"
  using align_special_case [of rodrigues "[(0, 0, 1)]" 1 0 0]
  by (simp add: rodrigues_def rotate_one_def)

text \<open>
  The claim as stated fails: the zero axis and the axis \<open>(0, 0, -1)\<close> both have a cross
  product of zero length with the reference axis, and neither takes the special case. The
  first divides by zero; the second has its angle \<open>\<pi>\<close> computed and is handed to the
  rotator with the zero vector as axis.
\<close>

theorem align_zero_cross_product_counterexample:
  "align_rotation_axis_along_z rodrigues [(0, 0, 0)] [(1, 0, 0)] = Inl ZeroDivisionError \<and>
   align_rotation_axis_along_z rodrigues [(0, 0, - 1)] [(1, 0, 0)] =
     rodrigues [(0, 0, 0)] [(1, 0, 0)] [Fin pi] \<and>
   align_rotation_axis_along_z rodrigues [(0, 0, - 1)] [(1, 0, 0)] \<noteq> Inr [(1, 0, 0)]"
  by (simp add: align_rotation_axis_along_z_def py_index_def bind_err_def py_div_def
      py_acos_def rodrigues_def)

text \<open>
  C8. When the rotation axis is the reference axis \<open>(0, 0, 1)\<close> and the call returns, the
  columns \<open>s1c\<close> and \<open>s0c\<close> of the result are exactly what the rotator gave for \<open>s1\<close>
  and for the repeated beam vector, rotated about the axis by the angles
  \<open>phi * -1.0 * pi / 180\<close>; a finite \<open>phi\<close> of \<open>p\<close> degrees gives the angle
  \<open>- p \<pi> / 180\<close>. The alignment step changes nothing.
\<close>

theorem frame_vectors_reference_axis:
  assumes ax: "get_rotation_axis ex = (0, 0, 1)"
    and run: "calc_crystal_frame_vectors R t ex = Inr t'"
  shows "\<exists>phi s1 r1 r0.
           columns t ''phi'' = Some (DoubleCol phi) \<and> columns t ''s1'' = Some (Vec3Col s1) \<and>
           R [(0, 0, 1)] s1 (map (\<lambda>p. d_div (d_mul (d_mul p (Fin (- 1))) (Fin pi)) (Fin 180)) phi) = Inr r1 \<and>
           R [(0, 0, 1)] (replicate (nrows t) (get_s0 ex))
             (map (\<lambda>p. d_div (d_mul (d_mul p (Fin (- 1))) (Fin pi)) (Fin 180)) phi) = Inr r0 \<and>
           columns t' ''s1c'' = Some (Vec3Col r1) \<and> columns t' ''s0c'' = Some (Vec3Col r0) \<and>
           (\<forall>p. d_div (d_mul (d_mul (Fin p) (Fin (- 1))) (Fin pi)) (Fin 180) =
                  Fin (- (p * pi / 180)))"
  using run unfolding calc_crystal_frame_vectors_def ax Let_def
  by (auto simp: bind_err_Inr setitem_Inr get_double_Inr get_vec3_Inr align_reference_axis)

theorem frame_vectors_reference_axis_witness:
  "columns frame_example ''phi'' = Some (DoubleCol [Fin 0, Fin 180]) \<and>
   rodrigues [(0, 0, 1)] [(1, 0, 0), (0, 1, 0)] [Fin 0, Fin (- pi)] =
     Inr [(1, 0, 0), (0, - 1, 0)]"
proof -
  have ax: "get_rotation_axis z_experiment = (0, 0, 1)" by (simp add: z_experiment_def)
  from frame_vectors_reference_axis [OF ax frame_example_run]
  show ?thesis
    by (simp add: frame_example_def rodrigues_def rotate_one_def)
qed

text \<open>
  C10. When \<^verbatim>\<open>calc_crystal_frame_vectors\<close> returns, the table has the same rows and flag
  words, its columns are those it had together with \<open>s0\<close>, \<open>s0c\<close> and \<open>s1c\<close>, and every
  column under another name, \<open>s1\<close>, \<open>phi\<close>, \<open>intensity\<close>, \<open>d\<close> and \<open>miller_index\<close>
  among them, is what it was.
\<close>

theorem frame_vectors_columns:
  assumes run: "calc_crystal_frame_vectors R t ex = Inr t'"
  shows "nrows t' = nrows t \<and> flags t' = flags t \<and>
         dom (columns t') = dom (columns t) \<union> {''s0'', ''s0c'', ''s1c''} \<and>
         (\<forall>k. k \<notin> {''s0'', ''s0c'', ''s1c''} \<longrightarrow> columns t' k = columns t k) \<and>
         columns t' ''s1'' = columns t ''s1'' \<and> columns t' ''phi'' = columns t ''phi'' \<and>
         columns t' ''intensity'' = columns t ''intensity'' \<and>
         columns t' ''d'' = columns t ''d'' \<and>
         columns t' ''miller_index'' = columns t ''miller_index''"
  using run unfolding calc_crystal_frame_vectors_def Let_def
  by (auto simp: bind_err_Inr setitem_Inr)

theorem frame_vectors_columns_witness:
  "dom (columns frame_example) \<union> {''s0'', ''s0c'', ''s1c''} =
     {''phi'', ''s1'', ''d'', ''s0'', ''s0c'', ''s1c''}"
  using frame_vectors_columns [OF frame_example_run]
  by (auto simp: frame_example_def split: if_splits)

section \<open>Normalised intensities\<close>

lemma length_select_list:
  "length sel = length xs \<Longrightarrow> length (select_list sel xs) = count_true sel"
  unfolding select_list_def count_true_def
  by (induction sel xs rule: list_induct2) auto

lemma wf_miller_len:
  "wf_table t \<Longrightarrow> columns t k = Some (MillerCol xs) \<Longrightarrow> length xs = nrows t"
  unfolding wf_table_def by fastforce

lemma nrows_select_rows: "nrows (select_rows t sel) = count_true sel"
  by (simp add: select_rows_def count_true_def)

lemma columns_select_rows:
  "columns (select_rows t sel) k = map_option (select_col sel) (columns t k)"
  by (simp add: select_rows_def)

lemma select_col_Double:
  "select_col sel c = DoubleCol ys \<longleftrightarrow> (\<exists>xs. c = DoubleCol xs \<and> ys = select_list sel xs)"
  by (cases c) auto

lemma select_col_Miller:
  "select_col sel c = MillerCol ys \<longleftrightarrow> (\<exists>xs. c = MillerCol xs \<and> ys = select_list sel xs)"
  by (cases c) auto

lemma count_true_class:
  "length fl = length idx \<Longrightarrow>
   count_true (map P (select_list (map Q fl) idx)) =
     length (filter (\<lambda>(f, h). Q f \<and> P h) (zip fl idx))"
  unfolding select_list_def count_true_def
  by (induction fl idx rule: list_induct2) auto

lemma count_true_rest:
  "length fl = length idx \<Longrightarrow>
   count_true (map Q fl) - count_true (map P (select_list (map Q fl) idx)) =
     length (filter (\<lambda>(f, h). Q f \<and> \<not> P h) (zip fl idx))"
proof (induction fl idx rule: list_induct2)
  case Nil
  then show ?case by (simp add: count_true_def select_list_def)
next
  case (Cons f fl h idx)
  have le: "count_true (map P (select_list (map Q fl) idx)) \<le> count_true (map Q fl)"
    using Cons.hyps
    by (metis count_true_def length_filter_le length_map length_select_list)
  show ?case using Cons le
    by (auto simp: count_true_def select_list_def)
qed


lemma normE2_subset_Inr:
  assumes run: "normE2_subset bad t ex = Inr (rt, ma)"
  shows "\<exists>idx d I.
           columns t ''miller_index'' = Some (MillerCol idx) \<and>
           columns t ''d'' = Some (DoubleCol d) \<and>
           columns t ''intensity'' = Some (DoubleCol I) \<and>
           nrows rt = count_true (not_sel (get_flags t bad)) \<and>
           columns rt ''centric_flag'' =
             Some (BoolCol (map (is_centric ex) (select_list (not_sel (get_flags t bad)) idx))) \<and>
           columns rt ''resolution'' =
             Some (DoubleCol (reciprocal_sq (select_list (not_sel (get_flags t bad)) d))) \<and>
           indices ma = select_list (not_sel (get_flags t bad)) idx \<and>
           data ma = clamp_negative (select_list (not_sel (get_flags t bad)) I)"
  using run unfolding normE2_subset_def Let_def
  by (auto simp: bind_err_Inr setitem_Inr get_double_Inr get_miller_Inr columns_select_rows
      nrows_select_rows put_double_def select_col_Double select_col_Miller clamp_negative_def)

lemma normE2_subset_ok:
  assumes wf: "wf_table t"
    and idx: "columns t ''miller_index'' = Some (MillerCol idx)"
    and d: "columns t ''d'' = Some (DoubleCol d)"
    and I: "columns t ''intensity'' = Some (DoubleCol I)"
  shows "\<exists>rt ma. normE2_subset bad t ex = Inr (rt, ma)"
proof -
  let ?sel = "not_sel (get_flags t bad)"
  have ls: "length ?sel = nrows t" using wf by (simp add: not_sel_def get_flags_def wf_table_def)
  have li: "length idx = nrows t" using wf idx by (rule wf_miller_len)
  have ld: "length d = nrows t" using wf d by (rule wf_double_len)
  have lI: "length I = nrows t" using wf I by (rule wf_double_len)
  show ?thesis
    unfolding normE2_subset_def Let_def
    using idx d I ls li ld lI
    by (simp add: bind_err_def setitem_def get_double_def get_miller_def columns_select_rows
        nrows_select_rows put_double_def length_select_list reciprocal_sq_def)
qed

lemma subset_counts:
  assumes "length fl = length idx"
  shows "count_true (map (is_centric ex)
           (select_list (not_sel (map (\<lambda>f. f AND bad \<noteq> 0) fl)) idx)) =
         class_count ex bad fl idx True"
    and "count_true (not_sel (map (\<lambda>f. f AND bad \<noteq> 0) fl)) -
         count_true (map (is_centric ex)
           (select_list (not_sel (map (\<lambda>f. f AND bad \<noteq> 0) fl)) idx)) =
         class_count ex bad fl idx False"
proof -
  have sel: "not_sel (map (\<lambda>f. f AND bad \<noteq> 0) fl) = map (\<lambda>f. f AND bad = 0) fl"
    by (simp add: not_sel_def)
  show "count_true (map (is_centric ex)
           (select_list (not_sel (map (\<lambda>f. f AND bad \<noteq> 0) fl)) idx)) =
         class_count ex bad fl idx True"
    unfolding sel class_count_def using count_true_class [OF assms, of "is_centric ex" "\<lambda>f. f AND bad = 0"]
    by simp
  show "count_true (not_sel (map (\<lambda>f. f AND bad \<noteq> 0) fl)) -
         count_true (map (is_centric ex)
           (select_list (not_sel (map (\<lambda>f. f AND bad \<noteq> 0) fl)) idx)) =
         class_count ex bad fl idx False"
    unfolding sel class_count_def using count_true_rest [OF assms, of "\<lambda>f. f AND bad = 0" "is_centric ex"]
    by simp
qed

lemma calc_normE2_counts:
  assumes wf: "wf_table t"
    and idx: "columns t ''miller_index'' = Some (MillerCol idx)"
    and sub: "normE2_subset bad t ex = Inr (rt, ma)"
  shows "calc_normE2 bad binner t ex =
     (case n_refl_shells (class_count ex bad (flags t) idx False)
             (class_count ex bad (flags t) idx True) of
         None \<Rightarrow> bind_err (normE2_insufficient t) (\<lambda>t'. Inr (t', NoNormalisation))
       | Some n \<Rightarrow>
           bind_err (bin_averages binner ex rt ma (class_count ex bad (flags t) idx True)
                      (class_count ex bad (flags t) idx False) n)
             (\<lambda>(centric_bins, acentric_bins).
           bind_err (normE2_full_table ex centric_bins acentric_bins t) (\<lambda>t'.
             Inr (t', ShellsUsed (class_count ex bad (flags t) idx True)
                        (class_count ex bad (flags t) idx False) n))))"
proof -
  have len: "length (flags t) = length idx"
    using wf wf_miller_len [OF wf idx] by (simp add: wf_table_def)
  from normE2_subset_Inr [OF sub] idx
  have nr: "nrows rt = count_true (not_sel (get_flags t bad))"
    and cf: "columns rt ''centric_flag'' =
             Some (BoolCol (map (is_centric ex) (select_list (not_sel (get_flags t bad)) idx)))"
    by auto
  have c1: "count_true (map (is_centric ex) (select_list (not_sel (get_flags t bad)) idx)) =
              class_count ex bad (flags t) idx True"
    using subset_counts(1) [OF len, where ex = ex and bad = bad]
    by (simp only: get_flags_def)
  have c2: "nrows rt - class_count ex bad (flags t) idx True =
              class_count ex bad (flags t) idx False"
    using subset_counts(2) [OF len, where ex = ex and bad = bad]
    unfolding c1 [symmetric] by (simp only: get_flags_def nr)
  show ?thesis
    unfolding calc_normE2_def sub bind_err_def get_bool_def cf Let_def sum.case prod.case
      option.case column.case c1 c2
    by (rule refl)
qed

text \<open>
  C1. A well-formed table holding the columns \<open>miller_index\<close>, \<open>d\<close> and \<open>intensity\<close>,
  whose statistics subset (the rows without a bit of \<open>bad_for_scaling\<close>) has fewer than
  10000 acentric and at most 15000 centric reflections, takes the fallback: the call
  returns, logs the notice of the fallback, and the table it returns has an \<open>Esq\<close> of 1.0
  in every row, none of the working columns \<open>intensity_for_norm\<close>, \<open>centric_flag\<close> and
  \<open>resolution\<close>, the same rows, every other column as it was, and the flag words
  untouched. A \<open>d\<close> of zero in the subset does not change this: its reciprocal is an
  infinity in a working column of the subset, which is dropped.
\<close>

theorem calc_normE2_fallback:
  assumes wf: "wf_table t"
    and idx: "columns t ''miller_index'' = Some (MillerCol idx)"
    and d: "columns t ''d'' = Some (DoubleCol d)"
    and I: "columns t ''intensity'' = Some (DoubleCol I)"
    and na: "class_count ex bad (flags t) idx False < 10000"
    and nc: "class_count ex bad (flags t) idx True \<le> 15000"
  shows "\<exists>t'. calc_normE2 bad binner t ex = Inr (t', NoNormalisation) \<and>
           nrows t' = nrows t \<and> flags t' = flags t \<and>
           columns t' ''Esq'' = Some (DoubleCol (replicate (nrows t) (Fin 1))) \<and>
           columns t' ''intensity_for_norm'' = None \<and>
           columns t' ''centric_flag'' = None \<and>
           columns t' ''resolution'' = None \<and>
           (\<forall>k. k \<notin> {''Esq'', ''intensity_for_norm'', ''centric_flag'', ''resolution''} \<longrightarrow>
                columns t' k = columns t k)"
proof -
  from normE2_subset_ok [OF wf idx d I] obtain rt ma
    where sub: "normE2_subset bad t ex = Inr (rt, ma)" by blast
  have sh: "n_refl_shells (class_count ex bad (flags t) idx False)
              (class_count ex bad (flags t) idx True) = None"
    using na nc by (simp add: n_refl_shells_def)
  show ?thesis
    unfolding calc_normE2_counts [OF wf idx sub] sh
    by (simp add: normE2_insufficient_def bind_err_def setitem_def delitem_def)
qed

lemma length_set_selected_values [simp]:
  "length (set_selected_values xs sel vs) = length xs"
  by (induction xs sel vs rule: set_selected_values.induct) auto

lemma set_selected_values_map:
  "length sel = length xs \<Longrightarrow> length ys = length xs \<Longrightarrow>
   set_selected_values xs sel (map f (select_list sel ys)) =
     map (\<lambda>(s, x, y). if s then f y else x) (zip sel (zip xs ys))"
proof (induction sel arbitrary: xs ys)
  case Nil
  then show ?case by simp
next
  case (Cons s sel)
  then obtain x xs' y ys' where xs: "xs = x # xs'" and ys: "ys = y # ys'"
    by (metis length_Suc_conv)
  with Cons show ?case
    by (cases s) (simp_all add: select_list_def)
qed

lemma set_selected_values_nth:
  assumes "length sel = length xs" "length ys = length xs" "j < length xs"
  shows "set_selected_values xs sel (map f (select_list sel ys)) ! j =
         (if sel ! j then f (ys ! j) else xs ! j)"
  using assms by (simp add: set_selected_values_map)

lemma shell_update_Inr:
  assumes run: "shell_update sel1 limits means i t = Inr t'"
    and res: "columns t ''resolution'' = Some (DoubleCol res)"
    and I: "columns t ''intensity'' = Some (DoubleCol I)"
    and esq: "columns t ''Esq'' = Some (DoubleCol esq)"
    and len: "length sel1 = n" "length res = n" "length I = n" "length esq = n"
  shows "\<exists>esq'. columns t' = (columns t)(''Esq'' \<mapsto> DoubleCol esq') \<and>
           nrows t' = nrows t \<and> flags t' = flags t \<and> length esq' = n \<and>
           (\<forall>j < n. esq' ! j =
              (if sel1 ! j \<and> in_shell limits (res ! j) i
               then shell_value means i (I ! j) (esq ! j) else esq ! j))"
proof -
  let ?sel = "and_sel (and_sel sel1 (map (\<lambda>r. d_gt r (limits ! i)) res))
                (map (\<lambda>r. d_le r (limits ! (i + 1))) res)"
  from run res I esq obtain m where m: "i < length means" "means ! i = Some m"
    and t': "t' = put_double t ''Esq''
                    (set_selected_values esq ?sel (map (\<lambda>x. d_div x m) (select_list ?sel I)))"
    unfolding shell_update_def Let_def
    by (auto simp: bind_err_Inr get_double_Inr py_index_def divide_by_def
        split: if_splits option.splits)
  have ls: "length ?sel = n" using len by (simp add: and_sel_def)
  have sj: "\<And>j. j < n \<Longrightarrow> ?sel ! j = (sel1 ! j \<and> in_shell limits (res ! j) i)"
    using len by (simp add: and_sel_def in_shell_def)
  let ?esq' = "set_selected_values esq ?sel (map (\<lambda>x. d_div x m) (select_list ?sel I))"
  have "\<forall>j < n. ?esq' ! j =
              (if sel1 ! j \<and> in_shell limits (res ! j) i
               then shell_value means i (I ! j) (esq ! j) else esq ! j)"
  proof (intro allI impI)
    fix j assume j: "j < n"
    have "?esq' ! j = (if ?sel ! j then d_div (I ! j) m else esq ! j)"
      using set_selected_values_nth [of ?sel esq I j "\<lambda>x. d_div x m"] ls len j by simp
    then show "?esq' ! j =
              (if sel1 ! j \<and> in_shell limits (res ! j) i
               then shell_value means i (I ! j) (esq ! j) else esq ! j)"
      using sj [OF j] m by (simp add: shell_value_def)
  qed
  then show ?thesis
    using t' len by (intro exI [of _ ?esq']) (simp add: put_double_def)
qed

lemma shell_loop_Inr:
  assumes run: "shell_loop sel1 limits means js t = Inr t'"
    and res: "columns t ''resolution'' = Some (DoubleCol res)"
    and I: "columns t ''intensity'' = Some (DoubleCol I)"
    and esq: "columns t ''Esq'' = Some (DoubleCol esq)"
    and len: "length sel1 = n" "length res = n" "length I = n" "length esq = n"
  shows "\<exists>esq'. columns t' = (columns t)(''Esq'' \<mapsto> DoubleCol esq') \<and>
           nrows t' = nrows t \<and> flags t' = flags t \<and> length esq' = n \<and>
           (\<forall>j < n. esq' ! j =
              fold (\<lambda>i e. if sel1 ! j \<and> in_shell limits (res ! j) i
                          then shell_value means i (I ! j) e else e) js (esq ! j))"
  using run res I esq len(4)
proof (induction js arbitrary: t esq)
  case Nil
  then show ?case
    by (intro exI [of _ esq]) (auto simp: map_upd_triv)
next
  case (Cons i js)
  from Cons.prems(1) obtain t1 where
    up: "shell_update sel1 limits means i t = Inr t1"
    and rest: "shell_loop sel1 limits means js t1 = Inr t'"
    by (auto split: sum.splits)
  from shell_update_Inr [OF up Cons.prems(2) Cons.prems(3) Cons.prems(4) len(1) len(2) len(3)
      Cons.prems(5)]
  obtain esq1 where c1: "columns t1 = (columns t)(''Esq'' \<mapsto> DoubleCol esq1)"
    and n1: "nrows t1 = nrows t" and f1: "flags t1 = flags t" and l1: "length esq1 = n"
    and v1: "\<forall>j < n. esq1 ! j =
              (if sel1 ! j \<and> in_shell limits (res ! j) i
               then shell_value means i (I ! j) (esq ! j) else esq ! j)"
    by blast
  have r1: "columns t1 ''resolution'' = Some (DoubleCol res)"
    and I1: "columns t1 ''intensity'' = Some (DoubleCol I)"
    and e1: "columns t1 ''Esq'' = Some (DoubleCol esq1)"
    using c1 Cons.prems(2,3) by simp_all
  from Cons.IH [OF rest r1 I1 e1 l1]
  obtain esq' where c': "columns t' = (columns t1)(''Esq'' \<mapsto> DoubleCol esq')"
    and n': "nrows t' = nrows t1" and f': "flags t' = flags t1" and l': "length esq' = n"
    and v': "\<forall>j < n. esq' ! j =
              fold (\<lambda>i e. if sel1 ! j \<and> in_shell limits (res ! j) i
                          then shell_value means i (I ! j) e else e) js (esq1 ! j)"
    by blast
  show ?case
    using c' c1 n' n1 f' f1 l' v' v1
    by (intro exI [of _ esq']) simp
qed

lemma normE2_prepare_Inr:
  assumes run: "normE2_prepare ex t = Inr (t4, d0_sel)"
    and idx: "columns t ''miller_index'' = Some (MillerCol idx)"
    and d: "columns t ''d'' = Some (DoubleCol d)"
  shows "d0_sel = map (\<lambda>x. d_eq x (Fin 0)) d \<and> nrows t4 = nrows t \<and> flags t4 = flags t \<and>
         length idx = nrows t \<and>
         columns t4 = (columns t)
           (''Esq'' \<mapsto> DoubleCol (replicate (nrows t) (Fin 0)),
            ''centric_flag'' \<mapsto> BoolCol (map (is_centric ex) idx),
            ''d'' \<mapsto> DoubleCol (set_selected d (map (\<lambda>x. d_eq x (Fin 0)) d) (Fin 1)),
            ''resolution'' \<mapsto> DoubleCol (reciprocal_sq
               (set_selected d (map (\<lambda>x. d_eq x (Fin 0)) d) (Fin 1))))"
  using run idx d unfolding normE2_prepare_def Let_def
  by (auto simp: bind_err_Inr setitem_Inr get_double_Inr get_miller_Inr put_double_def)

lemma centric_shells_Inr:
  assumes run: "centric_shells cb t = Inr t'"
    and cf: "columns t ''centric_flag'' = Some (BoolCol cf)"
    and res: "columns t ''resolution'' = Some (DoubleCol res)"
    and I: "columns t ''intensity'' = Some (DoubleCol I)"
    and esq: "columns t ''Esq'' = Some (DoubleCol esq)"
    and len: "length cf = n" "length res = n" "length I = n" "length esq = n"
  shows "\<exists>esq'. columns t' = (columns t)(''Esq'' \<mapsto> DoubleCol esq') \<and>
           nrows t' = nrows t \<and> flags t' = flags t \<and> length esq' = n \<and>
           (\<forall>j < n. esq' ! j = class_pass cb (cf ! j) (res ! j) (I ! j) (esq ! j))"
proof (cases cb)
  case None
  with run esq len show ?thesis
    by (intro exI [of _ esq]) (auto simp: centric_shells_def class_pass_def map_upd_triv)
next
  case (Some b)
  obtain means limits where b: "b = (means, limits)" by (cases b)
  from run cf have loop: "shell_loop cf limits means [0 ..< length limits - 1] t = Inr t'"
    by (simp add: centric_shells_def Some b bind_err_def get_bool_def)
  from shell_loop_Inr [OF loop res I esq len]
  show ?thesis by (simp add: class_pass_def Some b)
qed

lemma acentric_shells_Inr:
  assumes run: "acentric_shells ab t = Inr t'"
    and cf: "columns t ''centric_flag'' = Some (BoolCol cf)"
    and res: "columns t ''resolution'' = Some (DoubleCol res)"
    and I: "columns t ''intensity'' = Some (DoubleCol I)"
    and esq: "columns t ''Esq'' = Some (DoubleCol esq)"
    and len: "length cf = n" "length res = n" "length I = n" "length esq = n"
  shows "\<exists>esq'. columns t' = (columns t)(''Esq'' \<mapsto> DoubleCol esq') \<and>
           nrows t' = nrows t \<and> flags t' = flags t \<and> length esq' = n \<and>
           (\<forall>j < n. esq' ! j = class_pass ab (\<not> cf ! j) (res ! j) (I ! j) (esq ! j))"
proof (cases ab)
  case None
  with run esq len show ?thesis
    by (intro exI [of _ esq]) (auto simp: acentric_shells_def class_pass_def map_upd_triv)
next
  case (Some b)
  obtain means limits where b: "b = (means, limits)" by (cases b)
  from run cf have loop:
    "shell_loop (not_sel cf) limits means [0 ..< length limits - 1] t = Inr t'"
    by (simp add: acentric_shells_def Some b bind_err_def get_bool_def)
  have ln: "length (not_sel cf) = n" using len by (simp add: not_sel_def)
  from shell_loop_Inr [OF loop res I esq ln len(2) len(3) len(4)] len(1)
  show ?thesis by (simp add: class_pass_def Some b not_sel_def)
qed

lemma normE2_finish_Inr:
  assumes run: "normE2_finish d0 t = Inr t'"
    and d: "columns t ''d'' = Some (DoubleCol d1)"
    and esq: "columns t ''Esq'' = Some (DoubleCol esq)"
  shows "columns t' = (columns t)
           (''intensity_for_norm'' := None, ''centric_flag'' := None, ''resolution'' := None,
            ''d'' \<mapsto> DoubleCol (set_selected d1 d0 (Fin 0)),
            ''Esq'' \<mapsto> DoubleCol (set_selected esq d0 (Fin 0))) \<and>
         nrows t' = nrows t \<and> flags t' = flags t"
  using run d esq unfolding normE2_finish_def Let_def
  by (auto simp: bind_err_Inr get_double_Inr put_double_def delitem_def)

lemma restore_d:
  "set_selected (set_selected d (map (\<lambda>x. d_eq x (Fin 0)) d) (Fin 1))
     (map (\<lambda>x. d_eq x (Fin 0)) d) (Fin 0) = d"
  by (induction d) (auto simp: set_selected_def d_eq_def)

lemma sentinel_resolution:
  "j < length d \<Longrightarrow>
   reciprocal_sq (set_selected d (map (\<lambda>x. d_eq x (Fin 0)) d) (Fin 1)) ! j =
     row_resolution (d ! j)"
  by (simp add: reciprocal_sq_def set_selected_def row_resolution_def Let_def)

lemma normE2_full_table_Inr:
  assumes wf: "wf_table t"
    and run: "normE2_full_table ex cb ab t = Inr t'"
    and idx: "columns t ''miller_index'' = Some (MillerCol idx)"
    and d: "columns t ''d'' = Some (DoubleCol d)"
    and I: "columns t ''intensity'' = Some (DoubleCol I)"
  shows "\<exists>esq. columns t' = (columns t)
                 (''intensity_for_norm'' := None, ''centric_flag'' := None,
                  ''resolution'' := None, ''Esq'' \<mapsto> DoubleCol esq) \<and>
           nrows t' = nrows t \<and> flags t' = flags t \<and> length esq = nrows t \<and>
           (\<forall>j < nrows t. esq ! j = row_esq ex cb ab (idx ! j) (d ! j) (I ! j))"
proof -
  let ?n = "nrows t"
  let ?d0 = "map (\<lambda>x. d_eq x (Fin 0)) d"
  let ?d1 = "set_selected d ?d0 (Fin 1)"
  let ?res = "reciprocal_sq ?d1"
  let ?cf = "map (is_centric ex) idx"
  let ?z = "replicate ?n (Fin 0)"
  have li: "length idx = ?n" using wf idx by (rule wf_miller_len)
  have ld: "length d = ?n" using wf d by (rule wf_double_len)
  have lI: "length I = ?n" using wf I by (rule wf_double_len)
  from run obtain t4 d0 t5 t6 where
    p: "normE2_prepare ex t = Inr (t4, d0)"
    and c: "centric_shells cb t4 = Inr t5"
    and a: "acentric_shells ab t5 = Inr t6"
    and f: "normE2_finish d0 t6 = Inr t'"
    unfolding normE2_full_table_def by (auto simp: bind_err_Inr)
  from normE2_prepare_Inr [OF p idx d]
  have d0: "d0 = ?d0" and n4: "nrows t4 = ?n" and f4: "flags t4 = flags t"
    and c4: "columns t4 = (columns t)
           (''Esq'' \<mapsto> DoubleCol ?z, ''centric_flag'' \<mapsto> BoolCol ?cf,
            ''d'' \<mapsto> DoubleCol ?d1, ''resolution'' \<mapsto> DoubleCol ?res)"
    by simp_all
  have k4: "columns t4 ''centric_flag'' = Some (BoolCol ?cf)"
    "columns t4 ''resolution'' = Some (DoubleCol ?res)"
    "columns t4 ''intensity'' = Some (DoubleCol I)"
    "columns t4 ''Esq'' = Some (DoubleCol ?z)"
    using c4 I by simp_all
  have l4: "length ?cf = ?n" "length ?res = ?n" "length I = ?n" "length ?z = ?n"
    using li ld lI by (simp_all add: reciprocal_sq_def set_selected_def)
  from centric_shells_Inr [OF c k4 l4]
  obtain e5 where c5: "columns t5 = (columns t4)(''Esq'' \<mapsto> DoubleCol e5)"
    and n5: "nrows t5 = nrows t4" and f5: "flags t5 = flags t4" and l5: "length e5 = ?n"
    and v5: "\<forall>j < ?n. e5 ! j = class_pass cb (?cf ! j) (?res ! j) (I ! j) (?z ! j)"
    by blast
  have k5: "columns t5 ''centric_flag'' = Some (BoolCol ?cf)"
    "columns t5 ''resolution'' = Some (DoubleCol ?res)"
    "columns t5 ''intensity'' = Some (DoubleCol I)"
    "columns t5 ''Esq'' = Some (DoubleCol e5)"
    using c5 k4 by simp_all
  from acentric_shells_Inr [OF a k5 l4(1) l4(2) l4(3) l5]
  obtain e6 where c6: "columns t6 = (columns t5)(''Esq'' \<mapsto> DoubleCol e6)"
    and n6: "nrows t6 = nrows t5" and f6: "flags t6 = flags t5" and l6: "length e6 = ?n"
    and v6: "\<forall>j < ?n. e6 ! j = class_pass ab (\<not> ?cf ! j) (?res ! j) (I ! j) (e5 ! j)"
    by blast
  have k6: "columns t6 ''d'' = Some (DoubleCol ?d1)" "columns t6 ''Esq'' = Some (DoubleCol e6)"
    using c6 c5 c4 by simp_all
  from normE2_finish_Inr [OF f k6]
  have c': "columns t' = (columns t6)
           (''intensity_for_norm'' := None, ''centric_flag'' := None, ''resolution'' := None,
            ''d'' \<mapsto> DoubleCol (set_selected ?d1 d0 (Fin 0)),
            ''Esq'' \<mapsto> DoubleCol (set_selected e6 d0 (Fin 0)))"
    and n': "nrows t' = nrows t6" and f': "flags t' = flags t6"
    by simp_all
  let ?esq = "set_selected e6 ?d0 (Fin 0)"
  have cols: "columns t' = (columns t)
                 (''intensity_for_norm'' := None, ''centric_flag'' := None,
                  ''resolution'' := None, ''Esq'' \<mapsto> DoubleCol ?esq)"
  proof (rule ext)
    fix k
    show "columns t' k = ((columns t)
                 (''intensity_for_norm'' := None, ''centric_flag'' := None,
                  ''resolution'' := None, ''Esq'' \<mapsto> DoubleCol ?esq)) k"
      using d by (simp add: c' c6 c5 c4 d0 restore_d)
  qed
  have vals: "\<forall>j < ?n. ?esq ! j = row_esq ex cb ab (idx ! j) (d ! j) (I ! j)"
  proof (intro allI impI)
    fix j assume j: "j < ?n"
    have "?esq ! j = (if d_eq (d ! j) (Fin 0) then Fin 0 else e6 ! j)"
      using j ld l6 by (simp add: set_selected_def)
    moreover have "?res ! j = row_resolution (d ! j)"
      using sentinel_resolution [of j d] j ld by simp
    ultimately show "?esq ! j = row_esq ex cb ab (idx ! j) (d ! j) (I ! j)"
      using v6 v5 j li by (simp add: row_esq_def)
  qed
  have le: "length ?esq = ?n" using l6 ld by (simp add: set_selected_def)
  show ?thesis
    using cols vals le n' n6 n5 n4 f' f6 f5 f4
    by (intro exI [of _ ?esq]) simp
qed

lemma calc_normE2_Inr:
  assumes wf: "wf_table t"
    and run: "calc_normE2 bad binner t ex = Inr (t', note)"
  shows "\<exists>idx d I rt ma.
           columns t ''miller_index'' = Some (MillerCol idx) \<and>
           columns t ''d'' = Some (DoubleCol d) \<and>
           columns t ''intensity'' = Some (DoubleCol I) \<and>
           normE2_subset bad t ex = Inr (rt, ma) \<and>
           (case n_refl_shells (class_count ex bad (flags t) idx False)
                   (class_count ex bad (flags t) idx True) of
              None \<Rightarrow> note = NoNormalisation \<and> normE2_insufficient t = Inr t'
            | Some n \<Rightarrow>
                note = ShellsUsed (class_count ex bad (flags t) idx True)
                         (class_count ex bad (flags t) idx False) n \<and>
                (\<exists>cb ab. bin_averages binner ex rt ma (class_count ex bad (flags t) idx True)
                            (class_count ex bad (flags t) idx False) n = Inr (cb, ab) \<and>
                         normE2_full_table ex cb ab t = Inr t'))"
proof -
  from run obtain rt ma where sub: "normE2_subset bad t ex = Inr (rt, ma)"
    unfolding calc_normE2_def by (auto simp: bind_err_Inr)
  from normE2_subset_Inr [OF sub] obtain idx d I where
    idx: "columns t ''miller_index'' = Some (MillerCol idx)"
    and d: "columns t ''d'' = Some (DoubleCol d)"
    and I: "columns t ''intensity'' = Some (DoubleCol I)"
    by blast
  from run have "(case n_refl_shells (class_count ex bad (flags t) idx False)
                   (class_count ex bad (flags t) idx True) of
              None \<Rightarrow> note = NoNormalisation \<and> normE2_insufficient t = Inr t'
            | Some n \<Rightarrow>
                note = ShellsUsed (class_count ex bad (flags t) idx True)
                         (class_count ex bad (flags t) idx False) n \<and>
                (\<exists>cb ab. bin_averages binner ex rt ma (class_count ex bad (flags t) idx True)
                            (class_count ex bad (flags t) idx False) n = Inr (cb, ab) \<and>
                         normE2_full_table ex cb ab t = Inr t'))"
    unfolding calc_normE2_counts [OF wf idx sub]
    by (auto simp: bind_err_Inr split: option.splits)
  with idx d I sub show ?thesis by blast
qed

lemma shell_update_mean:
  "shell_update sel1 limits means i t = Inr t' \<Longrightarrow> i < length means \<and> means ! i \<noteq> None"
  unfolding shell_update_def Let_def
  by (auto simp: bind_err_Inr py_index_def divide_by_def split: if_splits option.splits)

lemma shell_loop_means:
  "shell_loop sel1 limits means js t = Inr t' \<Longrightarrow>
   \<forall>i \<in> set js. i < length means \<and> means ! i \<noteq> None"
proof (induction js arbitrary: t)
  case Nil
  then show ?case by simp
next
  case (Cons i js)
  from Cons.prems obtain t1 where
    up: "shell_update sel1 limits means i t = Inr t1"
    and rest: "shell_loop sel1 limits means js t1 = Inr t'"
    by (auto split: sum.splits)
  from shell_update_mean [OF up] Cons.IH [OF rest] show ?case by simp
qed


lemma normE2_full_table_usable:
  assumes run: "normE2_full_table ex cb ab t = Inr t'"
  shows "usable_bins cb \<and> usable_bins ab"
proof -
  from run obtain t4 t5 t6 where
    c: "centric_shells cb t4 = Inr t5" and a: "acentric_shells ab t5 = Inr t6"
    unfolding normE2_full_table_def by (auto simp: bind_err_Inr)
  have "usable_bins cb"
    using c shell_loop_means
    by (fastforce simp: usable_bins_def centric_shells_def bind_err_Inr split: option.splits)
  moreover have "usable_bins ab"
    using a shell_loop_means
    by (fastforce simp: usable_bins_def acentric_shells_def bind_err_Inr split: option.splits)
  ultimately show ?thesis by simp
qed

lemma fold_skip:
  "(\<forall>i \<in> set js. \<not> (m \<and> P i)) \<Longrightarrow> fold (\<lambda>i e. if m \<and> P i then f i e else e) js e = e"
  by (induction js) auto

lemma class_pass_no_shell:
  "\<not> in_some_shell bins r \<Longrightarrow> class_pass bins m r I e = e"
  by (auto simp: in_some_shell_def class_pass_def list_ex_iff fold_skip split: option.splits)

lemma fold_const: "fold (\<lambda>i e. e) js e = e"
  by (induction js) auto

lemma class_pass_not_member: "class_pass bins False r I e = e"
  by (auto simp: class_pass_def fold_const split: option.splits)

lemma row_esq_no_shell:
  assumes "\<not> in_some_shell (if is_centric ex h then cb else ab) r"
    and "r = row_resolution d"
  shows "row_esq ex cb ab h d I = Fin 0"
  using assms
  by (cases "is_centric ex h") (simp_all add: row_esq_def class_pass_no_shell class_pass_not_member)

lemma d_le_not_lt: "d_le a b \<Longrightarrow> \<not> d_lt b a"
  by (cases a; cases b) (auto simp: d_le_def d_eq_def)

lemma lowest_boundary_no_shell:
  assumes "\<forall>i < length limits. d_le (limits ! 0) (limits ! i)"
  shows "\<not> in_some_shell (Some (means, limits)) (limits ! 0)"
  using assms d_le_not_lt
  by (fastforce simp: in_some_shell_def list_ex_iff in_shell_def d_gt_def)

lemma fold_nonneg:
  assumes "\<forall>i \<in> set js. i < length means"
    and "list_all positive_mean means"
    and "0 \<le> a" "0 \<le> b"
  shows "\<exists>c. fold (\<lambda>i e. if m \<and> P i then shell_value means i (Fin a) e else e) js (Fin b) = Fin c
             \<and> 0 \<le> c"
  using assms(1,4)
proof (induction js arbitrary: b)
  case Nil
  then show ?case by simp
next
  case (Cons i js)
  have i: "i < length means" using Cons.prems by simp
  then have pm: "positive_mean (means ! i)" using assms(2) by (simp add: list_all_length)
  have "\<exists>b'. (if m \<and> P i then shell_value means i (Fin a) (Fin b) else Fin b) = Fin b' \<and> 0 \<le> b'"
  proof (cases "means ! i")
    case None
    then show ?thesis using Cons.prems by (simp add: shell_value_def)
  next
    case (Some v)
    with pm obtain x where "v = Fin x" "0 < x" by (cases v) auto
    with Some assms(3) Cons.prems show ?thesis by (simp add: shell_value_def)
  qed
  then obtain b' where
    b': "(if m \<and> P i then shell_value means i (Fin a) (Fin b) else Fin b) = Fin b'" "0 \<le> b'"
    by blast
  from Cons.IH [of b'] Cons.prems b' show ?case by simp
qed

lemma class_pass_nonneg:
  assumes "usable_bins bins" "positive_means bins" "0 \<le> a" "0 \<le> b"
  shows "\<exists>c. class_pass bins m r (Fin a) (Fin b) = Fin c \<and> 0 \<le> c"
proof (cases bins)
  case None
  then show ?thesis using assms by (simp add: class_pass_def)
next
  case (Some p)
  obtain means limits where p: "p = (means, limits)" by (cases p)
  have r: "\<forall>i \<in> set [0 ..< length limits - 1]. i < length means"
    using assms(1) by (simp add: usable_bins_def Some p)
  have pm: "list_all positive_mean means"
    using assms(2) by (simp add: positive_means_def Some p)
  from fold_nonneg [OF r pm assms(3) assms(4)] show ?thesis
    by (simp add: class_pass_def Some p)
qed

lemma row_esq_nonneg:
  assumes "usable_bins cb" "usable_bins ab"
    and "positive_means (if is_centric ex h then cb else ab)"
    and "0 \<le> a"
  shows "\<exists>c. row_esq ex cb ab h d (Fin a) = Fin c \<and> 0 \<le> c"
proof (cases "d_eq d (Fin 0)")
  case True
  then show ?thesis by (simp add: row_esq_def)
next
  case False
  show ?thesis
  proof (cases "is_centric ex h")
    case True
    with assms have "positive_means cb" by simp
    from class_pass_nonneg [OF assms(1) this assms(4), of 0] False True show ?thesis
      by (simp add: row_esq_def class_pass_not_member)
  next
    case c: False
    with assms have "positive_means ab" by simp
    from class_pass_nonneg [OF assms(2) this assms(4), of 0] False c show ?thesis
      by (simp add: row_esq_def class_pass_not_member)
  qed
qed

lemma calc_normE2_main:
  assumes wf: "wf_table t"
    and run: "calc_normE2 bad binner t ex = Inr (t', ShellsUsed nc na n)"
  shows "\<exists>idx d I rt ma cb ab esq.
           columns t ''miller_index'' = Some (MillerCol idx) \<and>
           columns t ''d'' = Some (DoubleCol d) \<and>
           columns t ''intensity'' = Some (DoubleCol I) \<and>
           normE2_subset bad t ex = Inr (rt, ma) \<and>
           bin_averages binner ex rt ma nc na n = Inr (cb, ab) \<and>
           usable_bins cb \<and> usable_bins ab \<and>
           columns t' = (columns t)
                 (''intensity_for_norm'' := None, ''centric_flag'' := None,
                  ''resolution'' := None, ''Esq'' \<mapsto> DoubleCol esq) \<and>
           nrows t' = nrows t \<and> flags t' = flags t \<and> length esq = nrows t \<and>
           (\<forall>j < nrows t. esq ! j = row_esq ex cb ab (idx ! j) (d ! j) (I ! j))"
proof -
  from calc_normE2_Inr [OF wf run] obtain idx d I rt ma where
    idx: "columns t ''miller_index'' = Some (MillerCol idx)"
    and d: "columns t ''d'' = Some (DoubleCol d)"
    and I: "columns t ''intensity'' = Some (DoubleCol I)"
    and sub: "normE2_subset bad t ex = Inr (rt, ma)"
    and c: "(case n_refl_shells (class_count ex bad (flags t) idx False)
                   (class_count ex bad (flags t) idx True) of
              None \<Rightarrow> ShellsUsed nc na n = NoNormalisation \<and> normE2_insufficient t = Inr t'
            | Some n' \<Rightarrow>
                ShellsUsed nc na n = ShellsUsed (class_count ex bad (flags t) idx True)
                         (class_count ex bad (flags t) idx False) n' \<and>
                (\<exists>cb ab. bin_averages binner ex rt ma (class_count ex bad (flags t) idx True)
                            (class_count ex bad (flags t) idx False) n' = Inr (cb, ab) \<and>
                         normE2_full_table ex cb ab t = Inr t'))"
    by blast
  from c obtain cb ab where
    bins: "bin_averages binner ex rt ma nc na n = Inr (cb, ab)"
    and full: "normE2_full_table ex cb ab t = Inr t'"
    by (auto split: option.splits)
  from normE2_full_table_Inr [OF wf full idx d I] normE2_full_table_usable [OF full]
    idx d I sub bins
  show ?thesis by blast
qed

text \<open>
  C4. When the non-fallback path returns, the column \<open>d\<close> of the result is the column
  \<open>d\<close> of the input, so a \<open>d\<close> of zero is zero again after the substitution of 1.0, and
  every row whose \<open>d\<close> is zero has an \<open>Esq\<close> of exactly zero.
\<close>

theorem calc_normE2_zero_d:
  assumes wf: "wf_table t"
    and run: "calc_normE2 bad binner t ex = Inr (t', ShellsUsed nc na n)"
  shows "\<exists>d esq. columns t ''d'' = Some (DoubleCol d) \<and>
           columns t' ''d'' = Some (DoubleCol d) \<and>
           columns t' ''Esq'' = Some (DoubleCol esq) \<and> length esq = nrows t \<and>
           (\<forall>j < nrows t. d ! j = Fin 0 \<longrightarrow> esq ! j = Fin 0)"
proof -
  from calc_normE2_main [OF wf run] obtain idx d I cb ab esq where
    d: "columns t ''d'' = Some (DoubleCol d)"
    and c: "columns t' = (columns t)
                 (''intensity_for_norm'' := None, ''centric_flag'' := None,
                  ''resolution'' := None, ''Esq'' \<mapsto> DoubleCol esq)"
    and l: "length esq = nrows t"
    and v: "\<forall>j < nrows t. esq ! j = row_esq ex cb ab (idx ! j) (d ! j) (I ! j)"
    by blast
  have "\<forall>j < nrows t. d ! j = Fin 0 \<longrightarrow> esq ! j = Fin 0"
    using v by (simp add: row_esq_def d_eq_def)
  moreover have "columns t' ''d'' = Some (DoubleCol d)" "columns t' ''Esq'' = Some (DoubleCol esq)"
    using c d by simp_all
  ultimately show ?thesis using d l by blast
qed

text \<open>
  C9. When the non-fallback path returns, with the bins that \<^verbatim>\<open>bin_averages\<close> computed
  from the statistics subset: a row whose resolution lies in no shell of the bins of its
  class (above the lower limit and at most the upper limit of the shell) has the \<open>Esq\<close> of
  zero it was initialised with. In particular a row whose resolution equals the first
  limit of its class, when no limit is below the first, lies in no shell and has an
  \<open>Esq\<close> of zero.
\<close>

theorem calc_normE2_outside_shells:
  assumes wf: "wf_table t"
    and run: "calc_normE2 bad binner t ex = Inr (t', ShellsUsed nc na n)"
  shows "\<exists>idx d rt ma cb ab esq.
           columns t ''miller_index'' = Some (MillerCol idx) \<and>
           columns t ''d'' = Some (DoubleCol d) \<and>
           normE2_subset bad t ex = Inr (rt, ma) \<and>
           bin_averages binner ex rt ma nc na n = Inr (cb, ab) \<and>
           columns t' ''Esq'' = Some (DoubleCol esq) \<and> length esq = nrows t \<and>
           (\<forall>j < nrows t.
              \<not> in_some_shell (if is_centric ex (idx ! j) then cb else ab)
                   (row_resolution (d ! j)) \<longrightarrow> esq ! j = Fin 0) \<and>
           (\<forall>j < nrows t. \<forall>means limits.
              (if is_centric ex (idx ! j) then cb else ab) = Some (means, limits) \<and>
              row_resolution (d ! j) = limits ! 0 \<and>
              (\<forall>i < length limits. d_le (limits ! 0) (limits ! i)) \<longrightarrow> esq ! j = Fin 0)"
proof -
  from calc_normE2_main [OF wf run] obtain idx d I rt ma cb ab esq where
    idx: "columns t ''miller_index'' = Some (MillerCol idx)"
    and d: "columns t ''d'' = Some (DoubleCol d)"
    and sub: "normE2_subset bad t ex = Inr (rt, ma)"
    and bins: "bin_averages binner ex rt ma nc na n = Inr (cb, ab)"
    and c: "columns t' = (columns t)
                 (''intensity_for_norm'' := None, ''centric_flag'' := None,
                  ''resolution'' := None, ''Esq'' \<mapsto> DoubleCol esq)"
    and l: "length esq = nrows t"
    and v: "\<forall>j < nrows t. esq ! j = row_esq ex cb ab (idx ! j) (d ! j) (I ! j)"
    by blast
  have e: "columns t' ''Esq'' = Some (DoubleCol esq)" using c by simp
  have a: "\<forall>j < nrows t.
              \<not> in_some_shell (if is_centric ex (idx ! j) then cb else ab)
                   (row_resolution (d ! j)) \<longrightarrow> esq ! j = Fin 0"
    using v row_esq_no_shell by simp
  have b: "\<forall>j < nrows t. \<forall>means limits.
              (if is_centric ex (idx ! j) then cb else ab) = Some (means, limits) \<and>
              row_resolution (d ! j) = limits ! 0 \<and>
              (\<forall>i < length limits. d_le (limits ! 0) (limits ! i)) \<longrightarrow> esq ! j = Fin 0"
  proof (intro allI impI)
    fix j means limits
    assume j: "j < nrows t"
      and h: "(if is_centric ex (idx ! j) then cb else ab) = Some (means, limits) \<and>
              row_resolution (d ! j) = limits ! 0 \<and>
              (\<forall>i < length limits. d_le (limits ! 0) (limits ! i))"
    from h lowest_boundary_no_shell [of limits means]
    have "\<not> in_some_shell (if is_centric ex (idx ! j) then cb else ab) (row_resolution (d ! j))"
      by simp
    with a j show "esq ! j = Fin 0" by simp
  qed
  from idx d sub bins e l a b show ?thesis by blast
qed

text \<open>
  C2, as amended. When the non-fallback path returns, every row whose intensity is finite
  and not negative, and whose class has only finite positive bin means, has a finite
  \<open>Esq\<close> that is not negative.
\<close>

theorem calc_normE2_esq_nonneg:
  assumes wf: "wf_table t"
    and run: "calc_normE2 bad binner t ex = Inr (t', ShellsUsed nc na n)"
  shows "\<exists>idx I rt ma cb ab esq.
           columns t ''miller_index'' = Some (MillerCol idx) \<and>
           columns t ''intensity'' = Some (DoubleCol I) \<and>
           normE2_subset bad t ex = Inr (rt, ma) \<and>
           bin_averages binner ex rt ma nc na n = Inr (cb, ab) \<and>
           columns t' ''Esq'' = Some (DoubleCol esq) \<and> length esq = nrows t \<and>
           (\<forall>j < nrows t. \<forall>a.
              I ! j = Fin a \<and> 0 \<le> a \<and>
              positive_means (if is_centric ex (idx ! j) then cb else ab) \<longrightarrow>
              (\<exists>c. esq ! j = Fin c \<and> 0 \<le> c))"
proof -
  from calc_normE2_main [OF wf run] obtain idx d I rt ma cb ab esq where
    idx: "columns t ''miller_index'' = Some (MillerCol idx)"
    and I: "columns t ''intensity'' = Some (DoubleCol I)"
    and sub: "normE2_subset bad t ex = Inr (rt, ma)"
    and bins: "bin_averages binner ex rt ma nc na n = Inr (cb, ab)"
    and u: "usable_bins cb" "usable_bins ab"
    and c: "columns t' = (columns t)
                 (''intensity_for_norm'' := None, ''centric_flag'' := None,
                  ''resolution'' := None, ''Esq'' \<mapsto> DoubleCol esq)"
    and l: "length esq = nrows t"
    and v: "\<forall>j < nrows t. esq ! j = row_esq ex cb ab (idx ! j) (d ! j) (I ! j)"
    by blast
  have e: "columns t' ''Esq'' = Some (DoubleCol esq)" using c by simp
  have p: "\<forall>j < nrows t. \<forall>a.
              I ! j = Fin a \<and> 0 \<le> a \<and>
              positive_means (if is_centric ex (idx ! j) then cb else ab) \<longrightarrow>
              (\<exists>c. esq ! j = Fin c \<and> 0 \<le> c)"
    using v row_esq_nonneg [OF u] by simp
  from idx I sub bins e l p show ?thesis by blast
qed

text \<open>
  C6. When \<^verbatim>\<open>calc_normE2\<close> returns, what it logged tells the path it took, and that is
  decided by the two counts of the statistics subset alone: 20 shells if either count
  exceeds 20000; else 15 shells if either exceeds 15000; else the fallback if the acentric
  count is below 10000, whatever the centric count; else 10 shells.
\<close>

theorem calc_normE2_shell_count:
  assumes wf: "wf_table t"
    and run: "calc_normE2 bad binner t ex = Inr (t', note)"
  shows "\<exists>idx. columns t ''miller_index'' = Some (MillerCol idx) \<and>
           (let n_acentrics = class_count ex bad (flags t) idx False;
                n_centrics = class_count ex bad (flags t) idx True
            in note =
                 (if n_acentrics > 20000 \<or> n_centrics > 20000
                  then ShellsUsed n_centrics n_acentrics 20
                  else if n_acentrics > 15000 \<or> n_centrics > 15000
                  then ShellsUsed n_centrics n_acentrics 15
                  else if n_acentrics < 10000 then NoNormalisation
                  else ShellsUsed n_centrics n_acentrics 10))"
proof -
  from calc_normE2_Inr [OF wf run] obtain idx rt ma where
    idx: "columns t ''miller_index'' = Some (MillerCol idx)"
    and c: "(case n_refl_shells (class_count ex bad (flags t) idx False)
                   (class_count ex bad (flags t) idx True) of
              None \<Rightarrow> note = NoNormalisation \<and> normE2_insufficient t = Inr t'
            | Some n \<Rightarrow>
                note = ShellsUsed (class_count ex bad (flags t) idx True)
                         (class_count ex bad (flags t) idx False) n \<and>
                (\<exists>cb ab. bin_averages binner ex rt ma (class_count ex bad (flags t) idx True)
                            (class_count ex bad (flags t) idx False) n = Inr (cb, ab) \<and>
                         normE2_full_table ex cb ab t = Inr t'))"
    by blast
  from c have "(let n_acentrics = class_count ex bad (flags t) idx False;
                n_centrics = class_count ex bad (flags t) idx True
            in note =
                 (if n_acentrics > 20000 \<or> n_centrics > 20000
                  then ShellsUsed n_centrics n_acentrics 20
                  else if n_acentrics > 15000 \<or> n_centrics > 15000
                  then ShellsUsed n_centrics n_acentrics 15
                  else if n_acentrics < 10000 then NoNormalisation
                  else ShellsUsed n_centrics n_acentrics 10))"
    by (auto simp: n_refl_shells_def Let_def split: if_splits)
  with idx show ?thesis by blast
qed

lemma shell_update_ok:
  assumes res: "columns t ''resolution'' = Some (DoubleCol res)"
    and I: "columns t ''intensity'' = Some (DoubleCol I)"
    and esq: "columns t ''Esq'' = Some (DoubleCol esq)"
    and m: "i < length means" "means ! i \<noteq> None"
  shows "\<exists>t'. shell_update sel1 limits means i t = Inr t'"
  using assms unfolding shell_update_def Let_def
  by (auto simp: bind_err_def get_double_def py_index_def divide_by_def)

lemma shell_loop_ok:
  assumes res: "columns t ''resolution'' = Some (DoubleCol res)"
    and I: "columns t ''intensity'' = Some (DoubleCol I)"
    and esq: "columns t ''Esq'' = Some (DoubleCol esq)"
    and len: "length sel1 = n" "length res = n" "length I = n" "length esq = n"
    and m: "\<forall>i \<in> set js. i < length means \<and> means ! i \<noteq> None"
  shows "\<exists>t'. shell_loop sel1 limits means js t = Inr t'"
  using res I esq len(4) m
proof (induction js arbitrary: t esq)
  case Nil
  then show ?case by simp
next
  case (Cons i js)
  have mi: "i < length means" "means ! i \<noteq> None" using Cons.prems(5) by simp_all
  from shell_update_ok [OF Cons.prems(1) Cons.prems(2) Cons.prems(3) mi]
  obtain t1 where up: "shell_update sel1 limits means i t = Inr t1" by blast
  from shell_update_Inr [OF up Cons.prems(1) Cons.prems(2) Cons.prems(3) len(1) len(2) len(3)
      Cons.prems(4)]
  obtain esq1 where c1: "columns t1 = (columns t)(''Esq'' \<mapsto> DoubleCol esq1)"
    and l1: "length esq1 = n"
    by blast
  have r1: "columns t1 ''resolution'' = Some (DoubleCol res)"
    and I1: "columns t1 ''intensity'' = Some (DoubleCol I)"
    and e1: "columns t1 ''Esq'' = Some (DoubleCol esq1)"
    using c1 Cons.prems(1,2) by simp_all
  from Cons.IH [OF r1 I1 e1 l1] Cons.prems(5)
  obtain t' where "shell_loop sel1 limits means js t1 = Inr t'" by auto
  with up show ?case by simp
qed

lemma centric_shells_ok:
  assumes cf: "columns t ''centric_flag'' = Some (BoolCol cf)"
    and res: "columns t ''resolution'' = Some (DoubleCol res)"
    and I: "columns t ''intensity'' = Some (DoubleCol I)"
    and esq: "columns t ''Esq'' = Some (DoubleCol esq)"
    and len: "length cf = n" "length res = n" "length I = n" "length esq = n"
    and u: "usable_bins cb"
  shows "\<exists>t'. centric_shells cb t = Inr t'"
proof (cases cb)
  case None
  then show ?thesis by (simp add: centric_shells_def)
next
  case (Some b)
  obtain means limits where b: "b = (means, limits)" by (cases b)
  have m: "\<forall>i \<in> set [0 ..< length limits - 1]. i < length means \<and> means ! i \<noteq> None"
    using u by (simp add: usable_bins_def Some b)
  from shell_loop_ok [OF res I esq len m] cf show ?thesis
    by (simp add: centric_shells_def Some b bind_err_def get_bool_def)
qed

lemma acentric_shells_ok:
  assumes cf: "columns t ''centric_flag'' = Some (BoolCol cf)"
    and res: "columns t ''resolution'' = Some (DoubleCol res)"
    and I: "columns t ''intensity'' = Some (DoubleCol I)"
    and esq: "columns t ''Esq'' = Some (DoubleCol esq)"
    and len: "length cf = n" "length res = n" "length I = n" "length esq = n"
    and u: "usable_bins ab"
  shows "\<exists>t'. acentric_shells ab t = Inr t'"
proof (cases ab)
  case None
  then show ?thesis by (simp add: acentric_shells_def)
next
  case (Some b)
  obtain means limits where b: "b = (means, limits)" by (cases b)
  have m: "\<forall>i \<in> set [0 ..< length limits - 1]. i < length means \<and> means ! i \<noteq> None"
    using u by (simp add: usable_bins_def Some b)
  have ln: "length (not_sel cf) = n" using len by (simp add: not_sel_def)
  from shell_loop_ok [OF res I esq ln len(2) len(3) len(4) m] cf show ?thesis
    by (simp add: acentric_shells_def Some b bind_err_def get_bool_def)
qed

lemma normE2_full_table_ok:
  assumes wf: "wf_table t"
    and idx: "columns t ''miller_index'' = Some (MillerCol idx)"
    and d: "columns t ''d'' = Some (DoubleCol d)"
    and I: "columns t ''intensity'' = Some (DoubleCol I)"
    and u: "usable_bins cb" "usable_bins ab"
  shows "\<exists>t'. normE2_full_table ex cb ab t = Inr t'"
proof -
  let ?n = "nrows t"
  let ?d0 = "map (\<lambda>x. d_eq x (Fin 0)) d"
  let ?d1 = "set_selected d ?d0 (Fin 1)"
  let ?res = "reciprocal_sq ?d1"
  let ?cf = "map (is_centric ex) idx"
  let ?z = "replicate ?n (Fin 0)"
  have li: "length idx = ?n" using wf idx by (rule wf_miller_len)
  have ld: "length d = ?n" using wf d by (rule wf_double_len)
  have lI: "length I = ?n" using wf I by (rule wf_double_len)
  have "\<exists>t4. normE2_prepare ex t = Inr (t4, ?d0)"
    using idx d li ld unfolding normE2_prepare_def Let_def
    by (simp add: bind_err_def get_miller_def get_double_def setitem_def put_double_def
        reciprocal_sq_def set_selected_def)
  then obtain t4 where p: "normE2_prepare ex t = Inr (t4, ?d0)" by blast
  from normE2_prepare_Inr [OF p idx d]
  have c4: "columns t4 = (columns t)
           (''Esq'' \<mapsto> DoubleCol ?z, ''centric_flag'' \<mapsto> BoolCol ?cf,
            ''d'' \<mapsto> DoubleCol ?d1, ''resolution'' \<mapsto> DoubleCol ?res)"
    by simp
  have k4: "columns t4 ''centric_flag'' = Some (BoolCol ?cf)"
    "columns t4 ''resolution'' = Some (DoubleCol ?res)"
    "columns t4 ''intensity'' = Some (DoubleCol I)"
    "columns t4 ''Esq'' = Some (DoubleCol ?z)"
    using c4 I by simp_all
  have l4: "length ?cf = ?n" "length ?res = ?n" "length I = ?n" "length ?z = ?n"
    using li ld lI by (simp_all add: reciprocal_sq_def set_selected_def)
  from centric_shells_ok [OF k4 l4 u(1)] obtain t5 where c: "centric_shells cb t4 = Inr t5"
    by blast
  from centric_shells_Inr [OF c k4 l4]
  obtain e5 where c5: "columns t5 = (columns t4)(''Esq'' \<mapsto> DoubleCol e5)"
    and l5: "length e5 = ?n"
    by blast
  have k5: "columns t5 ''centric_flag'' = Some (BoolCol ?cf)"
    "columns t5 ''resolution'' = Some (DoubleCol ?res)"
    "columns t5 ''intensity'' = Some (DoubleCol I)"
    "columns t5 ''Esq'' = Some (DoubleCol e5)"
    using c5 k4 by simp_all
  from acentric_shells_ok [OF k5 l4(1) l4(2) l4(3) l5 u(2)]
  obtain t6 where a: "acentric_shells ab t5 = Inr t6" by blast
  from acentric_shells_Inr [OF a k5 l4(1) l4(2) l4(3) l5]
  obtain e6 where c6: "columns t6 = (columns t5)(''Esq'' \<mapsto> DoubleCol e6)"
    by blast
  have k6: "columns t6 ''d'' = Some (DoubleCol ?d1)" "columns t6 ''Esq'' = Some (DoubleCol e6)"
    using c6 c5 c4 by simp_all
  have "\<exists>t'. normE2_finish ?d0 t6 = Inr t'"
    using k6 unfolding normE2_finish_def Let_def
    by (simp add: bind_err_def get_double_def put_double_def delitem_def)
  then obtain t' where f: "normE2_finish ?d0 t6 = Inr t'" by blast
  show ?thesis
    unfolding normE2_full_table_def using p c a f by (simp add: bind_err_def)
qed

lemma select_list_Nil [simp]: "select_list [] xs = []" "select_list sel [] = []"
  by (simp_all add: select_list_def)

lemma select_list_Cons [simp]:
  "select_list (b # sel) (x # xs) = (if b then x # select_list sel xs else select_list sel xs)"
  by (simp add: select_list_def)

lemma select_list_append:
  "length s1 = length x1 \<Longrightarrow>
   select_list (s1 @ s2) (x1 @ x2) = select_list s1 x1 @ select_list s2 x2"
  by (simp add: select_list_def)

lemma select_list_replicate:
  "select_list (replicate n b) (replicate n x) = (if b then replicate n x else [])"
  by (induction n) (simp_all add: select_list_def)

lemma clamp_negative_map:
  "clamp_negative xs = map (\<lambda>x. if d_lt x (Fin 0) then Fin 0 else x) xs"
  by (induction xs) (simp_all add: clamp_negative_def set_selected_def)

lemma fold_d_add_replicate:
  "(d_add (Fin a) ^^ n) (Fin s) = Fin (s + real n * a)"
  by (induction n arbitrary: s) (simp_all add: algebra_simps)

lemma py_max_ok: "xs \<noteq> [] \<Longrightarrow> \<exists>m. py_max xs = Inr m"
  by (cases xs) (simp_all add: py_max_def)

lemma py_min_ok: "xs \<noteq> [] \<Longrightarrow> \<exists>m. py_min xs = Inr m"
  by (cases xs) (simp_all add: py_min_def)

lemma bin_averages_mean_binner:
  assumes res: "columns rt ''resolution'' = Some (DoubleCol res)"
    and ne: "res \<noteq> []"
    and n: "nc \<noteq> 0" "na \<noteq> 0"
  shows "bin_averages mean_binner ex rt ma nc na n =
     Inr (Some ([Some (arithmetic_mean
                   (select_list (map (is_centric ex) (indices ma)) (data ma)))],
                [Fin (1 / 4), Fin 2]),
          Some ([Some (arithmetic_mean
                   (select_list (not_sel (map (is_centric ex) (indices ma))) (data ma)))],
                [Fin (1 / 4), Fin 2]))"
proof -
  from py_max_ok [OF ne] obtain mx where mx: "py_max res = Inr mx" by blast
  from py_min_ok [OF ne] obtain mn where mn: "py_min res = Inr mn" by blast
  show ?thesis
    unfolding bin_averages_def
    using n by (simp add: bind_err_def get_double_def res mx mn Let_def class_bins_def
        mean_binner_def)
qed

text \<open>
  The non-fallback path returns whenever the binner gave, for each class with a member,
  bins whose every shell has a mean.
\<close>

lemma calc_normE2_returns:
  assumes wf: "wf_table t"
    and idx: "columns t ''miller_index'' = Some (MillerCol idx)"
    and d: "columns t ''d'' = Some (DoubleCol d)"
    and I: "columns t ''intensity'' = Some (DoubleCol I)"
    and sub: "normE2_subset bad t ex = Inr (rt, ma)"
    and sh: "n_refl_shells (class_count ex bad (flags t) idx False)
               (class_count ex bad (flags t) idx True) = Some n"
    and bins: "bin_averages binner ex rt ma (class_count ex bad (flags t) idx True)
                 (class_count ex bad (flags t) idx False) n = Inr (cb, ab)"
    and u: "usable_bins cb" "usable_bins ab"
  shows "\<exists>t'. calc_normE2 bad binner t ex =
           Inr (t', ShellsUsed (class_count ex bad (flags t) idx True)
                      (class_count ex bad (flags t) idx False) n) \<and>
           normE2_full_table ex cb ab t = Inr t'"
proof -
  from normE2_full_table_ok [OF wf idx d I u]
  obtain t' where full: "normE2_full_table ex cb ab t = Inr t'" by blast
  have "calc_normE2 bad binner t ex =
           Inr (t', ShellsUsed (class_count ex bad (flags t) idx True)
                      (class_count ex bad (flags t) idx False) n)"
    unfolding calc_normE2_counts [OF wf idx sub] sh
    by (simp add: bins full bind_err_def)
  with full show ?thesis by blast
qed

section \<open>The normalisation on the examples\<close>

lemma large_example_wf: "wf_table large_example"
  by (auto simp: wf_table_def large_example_def split: if_splits)

lemma large_example_counts:
  "class_count z_experiment 1 (flags large_example)
     (replicate 10000 (0, 0, 1) @ replicate 10000 (1, 0, 0) @
      [(1, 0, 0), (1, 0, 0), (1, 0, 0)]) True = 10000"
  "class_count z_experiment 1 (flags large_example)
     (replicate 10000 (0, 0, 1) @ replicate 10000 (1, 0, 0) @
      [(1, 0, 0), (1, 0, 0), (1, 0, 0)]) False = 10002"
  by (simp_all add: class_count_def large_example_def z_experiment_def filter_replicate)

lemma large_example_subset:
  assumes sub: "normE2_subset 1 large_example z_experiment = Inr (rt, ma)"
  shows "columns rt ''resolution'' =
           Some (DoubleCol (replicate 10000 (Fin 1) @ replicate 10000 (Fin 1) @
                            [Fin 1, Fin (1 / 4)]))"
    and "indices ma = replicate 10000 (0, 0, 1) @ replicate 10000 (1, 0, 0) @
                      [(1, 0, 0), (1, 0, 0)]"
    and "data ma = replicate 10000 (Fin 0) @ replicate 10000 (Fin 2) @ [Fin 0, Fin 2]"
proof -
  have sel: "not_sel (get_flags large_example 1) =
             replicate 10000 True @ replicate 10000 True @ [True, False, True]"
    by (simp add: not_sel_def get_flags_def large_example_def)
  from normE2_subset_Inr [OF sub]
  show "columns rt ''resolution'' =
           Some (DoubleCol (replicate 10000 (Fin 1) @ replicate 10000 (Fin 1) @
                            [Fin 1, Fin (1 / 4)]))"
    and "indices ma = replicate 10000 (0, 0, 1) @ replicate 10000 (1, 0, 0) @
                      [(1, 0, 0), (1, 0, 0)]"
    and "data ma = replicate 10000 (Fin 0) @ replicate 10000 (Fin 2) @ [Fin 0, Fin 2]"
    unfolding sel
    by (auto simp: large_example_def select_list_append select_list_replicate
        reciprocal_sq_def clamp_negative_map)
qed

lemma large_example_bins:
  assumes sub: "normE2_subset 1 large_example z_experiment = Inr (rt, ma)"
  shows "bin_averages mean_binner z_experiment rt ma 10000 10002 10 =
     Inr (Some ([Some (Fin 0)], [Fin (1 / 4), Fin 2]),
          Some ([Some (Fin (10001 / 5001))], [Fin (1 / 4), Fin 2]))"
proof -
  note s = large_example_subset [OF sub]
  have c: "arithmetic_mean
             (select_list (map (is_centric z_experiment) (indices ma)) (data ma)) = Fin 0"
    by (simp add: s z_experiment_def select_list_append select_list_replicate
        arithmetic_mean_def fold_d_add_replicate)
  have a: "arithmetic_mean
             (select_list (not_sel (map (is_centric z_experiment) (indices ma))) (data ma)) =
           Fin (10001 / 5001)"
    by (simp add: s z_experiment_def select_list_append select_list_replicate not_sel_def
        arithmetic_mean_def fold_d_add_replicate)
  show ?thesis
    using bin_averages_mean_binner [OF s(1), of 10000 10002 z_experiment ma 10]
    by (simp add: c a)
qed

lemma usable_example_bins:
  "usable_bins (Some ([Some m], [Fin (1 / 4), Fin 2]))"
  by (simp add: usable_bins_def)

lemma large_example_run:
  "\<exists>t' esq.
     calc_normE2 1 mean_binner large_example z_experiment =
       Inr (t', ShellsUsed 10000 10002 10) \<and>
     columns t' ''Esq'' = Some (DoubleCol esq) \<and> length esq = 20003 \<and>
     (\<forall>j < 20003. esq ! j =
        row_esq z_experiment (Some ([Some (Fin 0)], [Fin (1 / 4), Fin 2]))
          (Some ([Some (Fin (10001 / 5001))], [Fin (1 / 4), Fin 2]))
          ((replicate 10000 (0, 0, 1) @ replicate 10000 (1, 0, 0) @
            [(1, 0, 0), (1, 0, 0), (1, 0, 0)]) ! j)
          ((replicate 10000 (Fin 1) @ replicate 10000 (Fin 1) @ [Fin 1, Fin 0, Fin 2]) ! j)
          ((replicate 10000 (Fin 0) @ replicate 10000 (Fin 2) @
            [Fin (- 4), Fin 2, Fin 2]) ! j))"
proof -
  let ?idx = "replicate 10000 (0, 0, 1) @ replicate 10000 (1, 0, 0) @
              [(1, 0, 0), (1, 0, 0), (1, 0, 0) :: miller_index]"
  let ?d = "replicate 10000 (Fin 1) @ replicate 10000 (Fin 1) @ [Fin 1, Fin 0, Fin 2]"
  let ?I = "replicate 10000 (Fin 0) @ replicate 10000 (Fin 2) @ [Fin (- 4), Fin 2, Fin 2]"
  let ?cb = "Some ([Some (Fin 0)], [Fin (1 / 4), Fin 2])"
  let ?ab = "Some ([Some (Fin (10001 / 5001))], [Fin (1 / 4), Fin 2])"
  have idx: "columns large_example ''miller_index'' = Some (MillerCol ?idx)"
    and d: "columns large_example ''d'' = Some (DoubleCol ?d)"
    and I: "columns large_example ''intensity'' = Some (DoubleCol ?I)"
    by (simp_all add: large_example_def)
  have n: "nrows large_example = 20003" by (simp add: large_example_def)
  from normE2_subset_ok [OF large_example_wf idx d I] obtain rt ma
    where sub: "normE2_subset 1 large_example z_experiment = Inr (rt, ma)" by blast
  note bins = large_example_bins [OF sub]
  have sh: "n_refl_shells
              (class_count z_experiment 1 (flags large_example) ?idx False)
              (class_count z_experiment 1 (flags large_example) ?idx True) = Some 10"
    unfolding large_example_counts by (simp add: n_refl_shells_def)
  note ret = calc_normE2_returns [OF large_example_wf idx d I sub sh, of mean_binner ?cb ?ab,
      unfolded large_example_counts, OF bins usable_example_bins usable_example_bins]
  then obtain t' where run: "calc_normE2 1 mean_binner large_example z_experiment =
               Inr (t', ShellsUsed 10000 10002 10)"
    and full: "normE2_full_table z_experiment ?cb ?ab large_example = Inr t'"
    by blast
  from normE2_full_table_Inr [OF large_example_wf full idx d I] n
  obtain esq where "columns t' ''Esq'' = Some (DoubleCol esq)" "length esq = 20003"
    "\<forall>j < 20003. esq ! j = row_esq z_experiment ?cb ?ab (?idx ! j) (?d ! j) (?I ! j)"
    by auto
  with run show ?thesis by blast
qed

lemma esq_of_Inr:
  "r = Inr (t', note) \<Longrightarrow> columns t' ''Esq'' = Some (DoubleCol esq) \<Longrightarrow> j < length esq \<Longrightarrow>
   esq_of r j = Inr (esq ! j)"
  by (simp add: esq_of_def bind_err_def get_double_def py_index_def)

lemma large_example_esq:
  "esq_of (calc_normE2 1 mean_binner large_example z_experiment) 20000 =
     Inr (Fin (- (20004 / 10001)))"
  "esq_of (calc_normE2 1 mean_binner large_example z_experiment) 0 = Inr NaN"
  "esq_of (calc_normE2 1 mean_binner large_example z_experiment) 10000 =
     Inr (Fin (10002 / 10001))"
proof -
  from large_example_run obtain t' esq where
    run: "calc_normE2 1 mean_binner large_example z_experiment =
            Inr (t', ShellsUsed 10000 10002 10)"
    and e: "columns t' ''Esq'' = Some (DoubleCol esq)" and l: "length esq = 20003"
    and v: "\<forall>j < 20003. esq ! j =
        row_esq z_experiment (Some ([Some (Fin 0)], [Fin (1 / 4), Fin 2]))
          (Some ([Some (Fin (10001 / 5001))], [Fin (1 / 4), Fin 2]))
          ((replicate 10000 (0, 0, 1) @ replicate 10000 (1, 0, 0) @
            [(1, 0, 0), (1, 0, 0), (1, 0, 0)]) ! j)
          ((replicate 10000 (Fin 1) @ replicate 10000 (Fin 1) @ [Fin 1, Fin 0, Fin 2]) ! j)
          ((replicate 10000 (Fin 0) @ replicate 10000 (Fin 2) @
            [Fin (- 4), Fin 2, Fin 2]) ! j)"
    by blast
  have "esq ! 20000 = Fin (- (20004 / 10001))"
    using v by (simp add: nth_append row_esq_def class_pass_def z_experiment_def d_eq_def
        row_resolution_def in_shell_def d_gt_def d_le_def shell_value_def)
  then show "esq_of (calc_normE2 1 mean_binner large_example z_experiment) 20000 =
     Inr (Fin (- (20004 / 10001)))"
    using esq_of_Inr [OF run e, of 20000] l by simp
  have "esq ! 0 = NaN"
    using v by (simp add: nth_append row_esq_def class_pass_def z_experiment_def d_eq_def
        row_resolution_def in_shell_def d_gt_def d_le_def shell_value_def d_inf_def)
  then show "esq_of (calc_normE2 1 mean_binner large_example z_experiment) 0 = Inr NaN"
    using esq_of_Inr [OF run e, of 0] l by simp
  have "esq ! 10000 = Fin (10002 / 10001)"
    using v by (simp add: nth_append row_esq_def class_pass_def z_experiment_def d_eq_def
        row_resolution_def in_shell_def d_gt_def d_le_def shell_value_def)
  then show "esq_of (calc_normE2 1 mean_binner large_example z_experiment) 10000 =
     Inr (Fin (10002 / 10001))"
    using esq_of_Inr [OF run e, of 10000] l by simp
qed

lemma large_example_returns:
  "\<exists>t'. calc_normE2 1 mean_binner large_example z_experiment =
          Inr (t', ShellsUsed 10000 10002 10)"
  using large_example_run by blast

lemma large_example_columns:
  "columns large_example ''miller_index'' = Some (MillerCol idx) \<Longrightarrow>
   idx = replicate 10000 (0, 0, 1) @ replicate 10000 (1, 0, 0) @
         [(1, 0, 0), (1, 0, 0), (1, 0, 0)]"
  "columns large_example ''d'' = Some (DoubleCol d) \<Longrightarrow>
   d = replicate 10000 (Fin 1) @ replicate 10000 (Fin 1) @ [Fin 1, Fin 0, Fin 2]"
  "columns large_example ''intensity'' = Some (DoubleCol I) \<Longrightarrow>
   I = replicate 10000 (Fin 0) @ replicate 10000 (Fin 2) @ [Fin (- 4), Fin 2, Fin 2]"
  "nrows large_example = 20003"
  by (simp_all add: large_example_def)

text \<open>
  C2 as stated fails on the large example, whose classes have 10000 and 10002 members
  in the statistics subset. Row 20000 has \<open>d = 1\<close> and the intensity -4: the intensity
  itself, not the clamped one, is divided by the mean of its shell, and its \<open>Esq\<close> is
  negative. Row 0 has \<open>d = 1\<close> and belongs to the centric class, whose intensities are
  all zero: the mean of its shell is zero and its \<open>Esq\<close> is 0/0, a NaN.
\<close>

theorem calc_normE2_esq_counterexample:
  "bind_err (get_double large_example ''d'') (\<lambda>d. py_index d 20000) = Inr (Fin 1) \<and>
   esq_of (calc_normE2 1 mean_binner large_example z_experiment) 20000 =
     Inr (Fin (- (20004 / 10001))) \<and>
   bind_err (get_double large_example ''d'') (\<lambda>d. py_index d 0) = Inr (Fin 1) \<and>
   esq_of (calc_normE2 1 mean_binner large_example z_experiment) 0 = Inr NaN"
  using large_example_esq(1,2)
  by (simp add: bind_err_def get_double_def py_index_def large_example_def nth_append)

theorem calc_normE2_zero_d_witness:
  "esq_of (calc_normE2 1 mean_binner large_example z_experiment) 20001 = Inr (Fin 0)"
proof -
  from large_example_returns obtain t' where
    run: "calc_normE2 1 mean_binner large_example z_experiment =
            Inr (t', ShellsUsed 10000 10002 10)" by blast
  from calc_normE2_zero_d [OF large_example_wf run] obtain d esq where
    d: "columns large_example ''d'' = Some (DoubleCol d)"
    and e: "columns t' ''Esq'' = Some (DoubleCol esq)"
    and l: "length esq = nrows large_example"
    and v: "\<forall>j < nrows large_example. d ! j = Fin 0 \<longrightarrow> esq ! j = Fin 0"
    by blast
  have "d ! 20001 = Fin 0" using large_example_columns(2) [OF d] by (simp add: nth_append)
  with v have "esq ! 20001 = Fin 0" by (simp add: large_example_columns(4))
  with esq_of_Inr [OF run e, of 20001] l show ?thesis
    by (simp add: large_example_columns(4))
qed

theorem calc_normE2_outside_shells_witness:
  "esq_of (calc_normE2 1 mean_binner large_example z_experiment) 20002 = Inr (Fin 0)"
proof -
  from large_example_returns obtain t' where
    run: "calc_normE2 1 mean_binner large_example z_experiment =
            Inr (t', ShellsUsed 10000 10002 10)" by blast
  from calc_normE2_outside_shells [OF large_example_wf run] obtain idx d rt ma cb ab esq where
    idx: "columns large_example ''miller_index'' = Some (MillerCol idx)"
    and d: "columns large_example ''d'' = Some (DoubleCol d)"
    and sub: "normE2_subset 1 large_example z_experiment = Inr (rt, ma)"
    and bins: "bin_averages mean_binner z_experiment rt ma 10000 10002 10 = Inr (cb, ab)"
    and e: "columns t' ''Esq'' = Some (DoubleCol esq)"
    and l: "length esq = nrows large_example"
    and v: "\<forall>j < nrows large_example. \<forall>means limits.
              (if is_centric z_experiment (idx ! j) then cb else ab) = Some (means, limits) \<and>
              row_resolution (d ! j) = limits ! 0 \<and>
              (\<forall>i < length limits. d_le (limits ! 0) (limits ! i)) \<longrightarrow> esq ! j = Fin 0"
    by blast
  from bins large_example_bins [OF sub]
  have ab: "ab = Some ([Some (Fin (10001 / 5001))], [Fin (1 / 4), Fin 2])" by simp
  have i: "idx ! 20002 = (1, 0, 0)" using large_example_columns(1) [OF idx]
    by (simp add: nth_append)
  have dj: "d ! 20002 = Fin 2" using large_example_columns(2) [OF d] by (simp add: nth_append)
  have "esq ! 20002 = Fin 0"
    using v [rule_format, of 20002 "[Some (Fin (10001 / 5001))]" "[Fin (1 / 4), Fin 2]"]
    by (simp add: large_example_columns(4) i dj ab z_experiment_def row_resolution_def
        d_eq_def d_le_def less_Suc_eq)
  with esq_of_Inr [OF run e, of 20002] l show ?thesis
    by (simp add: large_example_columns(4))
qed

theorem calc_normE2_esq_nonneg_witness:
  "\<exists>c. esq_of (calc_normE2 1 mean_binner large_example z_experiment) 10000 = Inr (Fin c) \<and>
       0 \<le> c"
proof -
  from large_example_returns obtain t' where
    run: "calc_normE2 1 mean_binner large_example z_experiment =
            Inr (t', ShellsUsed 10000 10002 10)" by blast
  from calc_normE2_esq_nonneg [OF large_example_wf run] obtain idx I rt ma cb ab esq where
    idx: "columns large_example ''miller_index'' = Some (MillerCol idx)"
    and I: "columns large_example ''intensity'' = Some (DoubleCol I)"
    and sub: "normE2_subset 1 large_example z_experiment = Inr (rt, ma)"
    and bins: "bin_averages mean_binner z_experiment rt ma 10000 10002 10 = Inr (cb, ab)"
    and e: "columns t' ''Esq'' = Some (DoubleCol esq)"
    and l: "length esq = nrows large_example"
    and v: "\<forall>j < nrows large_example. \<forall>a.
              I ! j = Fin a \<and> 0 \<le> a \<and>
              positive_means (if is_centric z_experiment (idx ! j) then cb else ab) \<longrightarrow>
              (\<exists>c. esq ! j = Fin c \<and> 0 \<le> c)"
    by blast
  from bins large_example_bins [OF sub]
  have ab: "ab = Some ([Some (Fin (10001 / 5001))], [Fin (1 / 4), Fin 2])" by simp
  have i: "idx ! 10000 = (1, 0, 0)" using large_example_columns(1) [OF idx]
    by (simp add: nth_append)
  have Ij: "I ! 10000 = Fin 2" using large_example_columns(3) [OF I] by (simp add: nth_append)
  have "\<exists>c. esq ! 10000 = Fin c \<and> 0 \<le> c"
    using v [rule_format, of 10000 2]
    by (simp add: large_example_columns(4) i Ij ab z_experiment_def positive_means_def)
  with esq_of_Inr [OF run e, of 10000] l show ?thesis
    by (simp add: large_example_columns(4))
qed

theorem calc_normE2_shell_count_witness:
  "\<exists>t'. calc_normE2 1 mean_binner large_example z_experiment =
          Inr (t', ShellsUsed 10000 10002 10) \<and> \<not> (10002 < (10000 :: nat))"
proof -
  from large_example_returns obtain t' where
    run: "calc_normE2 1 mean_binner large_example z_experiment =
            Inr (t', ShellsUsed 10000 10002 10)" by blast
  from calc_normE2_shell_count [OF large_example_wf run] run show ?thesis by auto
qed

lemma small_example_wf: "wf_table small_example"
  by (auto simp: wf_table_def small_example_def split: if_splits)

theorem calc_normE2_fallback_witness:
  "\<exists>t'. calc_normE2 0 mean_binner small_example z_experiment = Inr (t', NoNormalisation) \<and>
        columns t' ''Esq'' = Some (DoubleCol [Fin 1, Fin 1, Fin 1]) \<and>
        columns t' ''resolution'' = None"
proof -
  have idx: "columns small_example ''miller_index'' =
               Some (MillerCol [(0, 0, 1), (1, 0, 0), (1, 1, 0)])"
    and d: "columns small_example ''d'' = Some (DoubleCol [Fin 1, Fin 2, Fin 0])"
    and I: "columns small_example ''intensity'' = Some (DoubleCol [Fin 5, Fin (- 1), Fin 3])"
    by (simp_all add: small_example_def)
  have na: "class_count z_experiment 0 (flags small_example)
              [(0, 0, 1), (1, 0, 0), (1, 1, 0)] False < 10000"
    and nc: "class_count z_experiment 0 (flags small_example)
              [(0, 0, 1), (1, 0, 0), (1, 1, 0)] True \<le> 15000"
    by (simp_all add: class_count_def small_example_def z_experiment_def)
  from calc_normE2_fallback [OF small_example_wf idx d I na nc, of mean_binner]
  show ?thesis by (auto simp: small_example_def numeral_3_eq_3)
qed

text \<open>
  C5. The resolution of the statistics subset (line 210) is the plain reciprocal
  \<open>1/d\<^sup>2\<close>: on the small example, whose third reflection has \<open>d = 0\<close> and is not
  flagged, the working column holds an infinity, the result of a division by zero. The
  full-table pass (lines 264 to 266) puts 1 for the zero first and gets the resolution 1
  for the same row.
\<close>

theorem subset_resolution_unguarded:
  "\<exists>rt ma. normE2_subset 0 small_example z_experiment = Inr (rt, ma) \<and>
           columns rt ''resolution'' = Some (DoubleCol [Fin 1, Fin (1 / 4), PInf]) \<and>
           map row_resolution [Fin 1, Fin 2, Fin 0] = [Fin 1, Fin (1 / 4), Fin 1]"
proof -
  have idx: "columns small_example ''miller_index'' =
               Some (MillerCol [(0, 0, 1), (1, 0, 0), (1, 1, 0)])"
    and d: "columns small_example ''d'' = Some (DoubleCol [Fin 1, Fin 2, Fin 0])"
    and I: "columns small_example ''intensity'' = Some (DoubleCol [Fin 5, Fin (- 1), Fin 3])"
    by (simp_all add: small_example_def)
  from normE2_subset_ok [OF small_example_wf idx d I] obtain rt ma
    where sub: "normE2_subset 0 small_example z_experiment = Inr (rt, ma)" by blast
  have sel: "not_sel (get_flags small_example 0) = [True, True, True]"
    by (simp add: not_sel_def get_flags_def small_example_def)
  from normE2_subset_Inr [OF sub]
  have "columns rt ''resolution'' = Some (DoubleCol [Fin 1, Fin (1 / 4), PInf])"
    unfolding sel by (auto simp: small_example_def reciprocal_sq_def d_inf_def)
  moreover have "map row_resolution [Fin 1, Fin 2, Fin 0] = [Fin 1, Fin (1 / 4), Fin 1]"
    by (simp add: row_resolution_def d_eq_def)
  ultimately show ?thesis
    using sub by (intro exI [of _ rt] exI [of _ ma]) simp
qed

end
